theory Spec2Isabelle
  imports Main "HOL-Library.Sublist" "HOL-Library.Multiset" "HOL-Library.AList" "HOL-Library.Word"
begin

section \<open>GPU library and binary resolution (packages gpu and gpuutils)\<close>

text \<open>
  The development embeds two revisions of the same resolver: \<open>Paths\<close> of package
  \<open>gpu\<close> and \<open>GetGpuPath\<close> of package \<open>gpuutils\<close>. Go strings are byte strings and
  are modelled as \<open>string\<close>. Everything the functions obtain from outside the process
  (the executable search, child processes, files, ELF headers, the regular expression
  engine and the iteration order of a Go map) is a field of the record \<open>world\<close>; the
  process environment and the sequence of calls made are the mutable \<open>state\<close>.
\<close>

subsection \<open>Package strings, bufio and path/filepath\<close>

text \<open>
  The UTF-8 encodings of the code points for which \<open>unicode.IsSpace\<close> holds: tab,
  newline, vertical tab, form feed, carriage return and space, U+0085, U+00A0, U+1680,
  U+2000 to U+200A, U+2028, U+2029, U+202F, U+205F and U+3000. No encoding is the
  beginning or the end of another one.
\<close>

definition spaceRunes :: "string list" where
  "spaceRunes =
     [CHR 0x09] # [CHR 0x0A] # [CHR 0x0B] # [CHR 0x0C] # [CHR 0x0D] # [CHR 0x20] #
     [CHR 0xC2, CHR 0x85] # [CHR 0xC2, CHR 0xA0] #
     [CHR 0xE1, CHR 0x9A, CHR 0x80] #
     [CHR 0xE2, CHR 0x80, CHR 0x80] # [CHR 0xE2, CHR 0x80, CHR 0x81] #
     [CHR 0xE2, CHR 0x80, CHR 0x82] # [CHR 0xE2, CHR 0x80, CHR 0x83] #
     [CHR 0xE2, CHR 0x80, CHR 0x84] # [CHR 0xE2, CHR 0x80, CHR 0x85] #
     [CHR 0xE2, CHR 0x80, CHR 0x86] # [CHR 0xE2, CHR 0x80, CHR 0x87] #
     [CHR 0xE2, CHR 0x80, CHR 0x88] # [CHR 0xE2, CHR 0x80, CHR 0x89] #
     [CHR 0xE2, CHR 0x80, CHR 0x8A] #
     [CHR 0xE2, CHR 0x80, CHR 0xA8] # [CHR 0xE2, CHR 0x80, CHR 0xA9] #
     [CHR 0xE2, CHR 0x80, CHR 0xAF] #
     [CHR 0xE2, CHR 0x81, CHR 0x9F] #
     [CHR 0xE3, CHR 0x80, CHR 0x80] # []"

text \<open>
  \<open>runeWidth encs s\<close> is the number of bytes of the encoding among \<open>encs\<close> with which
  \<open>s\<close> begins, and 0 when it begins with none; \<open>trimPrefixes\<close> removes such
  encodings from the front for as long as there is one.
\<close>

definition runeWidth :: "string list \<Rightarrow> string \<Rightarrow> nat" where
  "runeWidth encs s = (case find (\<lambda>e. prefix e s) encs of None \<Rightarrow> 0 | Some e \<Rightarrow> length e)"

function trimPrefixes :: "string list \<Rightarrow> string \<Rightarrow> string" where
  "trimPrefixes encs s =
     (if runeWidth encs s = 0 then s else trimPrefixes encs (drop (runeWidth encs s) s))"
  by pat_completeness auto
termination
proof (relation "measure (\<lambda>(encs, s). length s)")
  show "wf (measure (\<lambda>(encs, s). length s))" by simp
next
  fix encs :: "string list" and s :: string
  assume w: "runeWidth encs s \<noteq> 0"
  then obtain e where "find (\<lambda>e. prefix e s) encs = Some e" and "length e \<noteq> 0"
    by (auto simp: runeWidth_def split: option.splits)
  then have "prefix e s" and "e \<noteq> []"
    by (auto simp: find_Some_iff)
  then have "s \<noteq> []" by auto
  with w show "((encs, drop (runeWidth encs s) s), (encs, s)) \<in> measure (\<lambda>(encs, s). length s)"
    by simp
qed

declare trimPrefixes.simps [simp del]

text \<open>
  \<open>strings.TrimSpace\<close>: the white space at the front is removed rune by rune, then
  the white space at the end, which the library finds by decoding the last rune; a
  string ends with the encoding of a rune exactly when its reversal begins with the
  reversed encoding.
\<close>

definition TrimLeftSpace :: "string \<Rightarrow> string" where
  "TrimLeftSpace s = trimPrefixes spaceRunes s"

definition TrimRightSpace :: "string \<Rightarrow> string" where
  "TrimRightSpace s = rev (trimPrefixes (map rev spaceRunes) (rev s))"

definition TrimSpace :: "string \<Rightarrow> string" where
  "TrimSpace s = TrimRightSpace (TrimLeftSpace s)"

text \<open>A string made of white space only.\<close>

definition white :: "string \<Rightarrow> bool" where
  "white s = (\<exists>es. set es \<subseteq> set spaceRunes \<and> s = concat es)"

definition HasPrefix :: "string \<Rightarrow> string \<Rightarrow> bool" where
  "HasPrefix s pre = prefix pre s"

text \<open>\<open>strings.Contains s substr\<close>: \<open>substr\<close> occurs at some position of \<open>s\<close>.\<close>

fun Contains :: "string \<Rightarrow> string \<Rightarrow> bool" where
  "Contains [] substr = (substr = [])"
| "Contains (c # cs) substr = (prefix substr (c # cs) \<or> Contains cs substr)"

text \<open>
  \<open>strings.SplitAfter s sep\<close> for a non-empty \<open>sep\<close> (both call sites pass \<open>.so\<close>):
  the pieces of \<open>s\<close>, each ending with an occurrence of \<open>sep\<close>, and the remainder.
  \<open>piece\<close> is the part of the current piece already read. The splitting of Go into
  single characters for an empty \<open>sep\<close> is not modelled.
\<close>

fun splitAfterFrom :: "string \<Rightarrow> string \<Rightarrow> string \<Rightarrow> string list" where
  "splitAfterFrom sep piece [] = [piece]"
| "splitAfterFrom sep piece (c # cs) =
     (if sep \<noteq> [] \<and> prefix sep (c # cs)
      then (piece @ sep) # splitAfterFrom sep [] (drop (length sep) (c # cs))
      else splitAfterFrom sep (piece @ [c]) cs)"

definition SplitAfter :: "string \<Rightarrow> string \<Rightarrow> string list" where
  "SplitAfter s sep = splitAfterFrom sep [] s"

text \<open>
  \<open>filepath.Base\<close> on a system whose separator is the slash: the last element of the
  path, trailing slashes removed first.
\<close>

definition Base :: "string \<Rightarrow> string" where
  "Base path =
     (if path = [] then ''.''
      else let stripped = rev (dropWhile (\<lambda>c. c = CHR ''/'') (rev path));
               element = rev (takeWhile (\<lambda>c. c \<noteq> CHR ''/'') (rev stripped))
           in if element = [] then ''/'' else element)"

text \<open>
  The tokens of a \<open>bufio.Scanner\<close> with the default split function \<open>ScanLines\<close>: the
  text is cut at each newline, one trailing carriage return is dropped from each line,
  and a last line without newline is a token when it is not empty. The buffer of the
  scanner holds at most \<open>MaxScanTokenSize\<close> bytes: at a line with that many bytes or
  more before its newline \<open>Scan\<close> returns false, and as the source does not look at
  \<open>scanner.Err()\<close> its loop ends there, with the lines read so far.
\<close>

definition MaxScanTokenSize :: nat where
  "MaxScanTokenSize = 64 * 1024"

definition dropCR :: "string \<Rightarrow> string" where
  "dropCR line = (if line \<noteq> [] \<and> last line = CHR 0x0D then butlast line else line)"

fun scanLinesFrom :: "string \<Rightarrow> string \<Rightarrow> string list" where
  "scanLinesFrom line [] =
     (if line = [] \<or> MaxScanTokenSize \<le> length line then [] else [dropCR line])"
| "scanLinesFrom line (c # cs) =
     (if c = CHR 0x0A
      then (if MaxScanTokenSize \<le> length line then []
            else dropCR line # scanLinesFrom [] cs)
      else scanLinesFrom (line @ [c]) cs)"

definition ScanLines :: "string \<Rightarrow> string list" where
  "ScanLines text = scanLinesFrom [] text"

subsection \<open>The process, its environment and the outside world\<close>

type_synonym Machine = "16 word"

datatype error =
    ErrNotFound string
  | ErrExec string
  | ErrOpen string
  | ErrElf string
  | ErrRegexp
  | Errorf string error

text \<open>
  \<open>lookPath w path file\<close> is the result of \<open>exec.LookPath file\<close> when the variable
  \<open>PATH\<close> holds \<open>path\<close>; \<open>runCommand w path name args\<close> is the standard output of the
  child process, or \<open>None\<close> when it cannot be started or exits with a failure;
  \<open>readFile\<close> is \<open>None\<close> when \<open>os.Open\<close> fails; \<open>elfMachine\<close> is \<open>None\<close> when
  \<open>elf.Open\<close> fails; \<open>regexpCompile\<close> is the compiled ldconfig pattern, given as the
  function from a text to the pairs (group 1, group 2) of its matches, or \<open>None\<close> when
  \<open>regexp.Compile\<close> fails; \<open>filepathJoin\<close> is \<open>filepath.Join\<close>; \<open>mapRange w i\<close>
  is the order in which the \<open>range\<close> statement executed for the \<open>i\<close>-th candidate visits
  the entries of a map.
\<close>

record world =
  lookPath :: "string \<Rightarrow> string \<Rightarrow> string option"
  runCommand :: "string \<Rightarrow> string \<Rightarrow> string list \<Rightarrow> string option"
  readFile :: "string \<Rightarrow> string option"
  elfMachine :: "string \<Rightarrow> Machine option"
  regexpCompile :: "(string \<Rightarrow> (string \<times> string) list) option"
  filepathJoin :: "string \<Rightarrow> string \<Rightarrow> string"
  mapRange :: "nat \<Rightarrow> (string \<times> string) list \<Rightarrow> (string \<times> string) list"

text \<open>A \<open>range\<close> over a map visits every entry exactly once, in an order of its own.\<close>

definition mapRange_ok :: "world \<Rightarrow> bool" where
  "mapRange_ok w = (\<forall>i al. mset (mapRange w i al) = mset al)"

datatype event =
    EvGetenv string
  | EvSetenv string string
  | EvLookPath string
  | EvCommand string "string list"
  | EvOpen string
  | EvElfOpen string

record state =
  environ :: "string \<rightharpoonup> string"
  trace :: "event list"

definition getenv :: "(string \<rightharpoonup> string) \<Rightarrow> string \<Rightarrow> string" where
  "getenv env key = (case env key of None \<Rightarrow> [] | Some v \<Rightarrow> v)"

definition os_Getenv :: "string \<Rightarrow> state \<Rightarrow> string \<times> state" where
  "os_Getenv key s = (getenv (environ s) key, s\<lparr>trace := trace s @ [EvGetenv key]\<rparr>)"

text \<open>
  \<open>os.Setenv\<close> fails, and changes nothing, when the key is empty or contains \<open>=\<close>
  or a NUL byte, or when the value contains a NUL byte. The source discards the error.
\<close>

definition os_Setenv :: "string \<Rightarrow> string \<Rightarrow> state \<Rightarrow> state" where
  "os_Setenv key v s =
     (if key = [] \<or> CHR ''='' \<in> set key \<or> CHR 0x00 \<in> set key \<or> CHR 0x00 \<in> set v
      then s\<lparr>trace := trace s @ [EvSetenv key v]\<rparr>
      else s\<lparr>environ := (environ s)(key \<mapsto> v), trace := trace s @ [EvSetenv key v]\<rparr>)"

text \<open>
  \<open>exec.LookPath\<close> searches the directories of the current \<open>PATH\<close>; this use of the
  variable inside the library is not an \<open>os.Getenv\<close> call of the program and is
  recorded as \<open>EvLookPath\<close>.
\<close>

definition exec_LookPath :: "world \<Rightarrow> string \<Rightarrow> state \<Rightarrow> (error + string) \<times> state" where
  "exec_LookPath w file s =
     ((case lookPath w (getenv (environ s) ''PATH'') file of
         None \<Rightarrow> Inl (ErrNotFound file)
       | Some p \<Rightarrow> Inr p),
      s\<lparr>trace := trace s @ [EvLookPath file]\<rparr>)"

definition exec_Command :: "world \<Rightarrow> string \<Rightarrow> string list \<Rightarrow> state \<Rightarrow> (error + string) \<times> state" where
  "exec_Command w name args s =
     ((case runCommand w (getenv (environ s) ''PATH'') name args of
         None \<Rightarrow> Inl (ErrExec name)
       | Some out \<Rightarrow> Inr out),
      s\<lparr>trace := trace s @ [EvCommand name args]\<rparr>)"

definition os_Open :: "world \<Rightarrow> string \<Rightarrow> state \<Rightarrow> (error + string) \<times> state" where
  "os_Open w name s =
     ((case readFile w name of None \<Rightarrow> Inl (ErrOpen name) | Some text \<Rightarrow> Inr text),
      s\<lparr>trace := trace s @ [EvOpen name]\<rparr>)"

definition elf_Open :: "world \<Rightarrow> string \<Rightarrow> state \<Rightarrow> (error + Machine) \<times> state" where
  "elf_Open w name s =
     ((case elfMachine w name of None \<Rightarrow> Inl (ErrElf name) | Some m \<Rightarrow> Inr m),
      s\<lparr>trace := trace s @ [EvElfOpen name]\<rparr>)"

text \<open>The events that are calls of \<open>os.Getenv\<close> and \<open>os.Setenv\<close>.\<close>

definition isEnvOp :: "event \<Rightarrow> bool" where
  "isEnvOp e = (case e of EvGetenv key \<Rightarrow> True | EvSetenv key v \<Rightarrow> True | _ \<Rightarrow> False)"

subsection \<open>Candidate providers\<close>

text \<open>
  The body of the scanner loop of \<open>gpuContainerCli\<close>, the same in both packages: a
  blank line adds nothing, a line containing \<open>.so\<close> adds its base name and the base
  name cut after the first \<open>.so\<close>, any other line is added as it is.
\<close>

fun scanCli :: "string list \<Rightarrow> string list \<Rightarrow> string list" where
  "scanCli [] libs = libs"
| "scanCli (text # rest) libs =
     (let line = TrimSpace text in
      if line = [] then scanCli rest libs
      else if Contains line ''.so''
      then (let lib = Base line;
                bareLib = hd (SplitAfter lib ''.so'')
            in scanCli rest ((libs @ [lib]) @ [bareLib]))
      else scanCli rest (libs @ [line]))"

text \<open>Package \<open>gpu\<close>: \<open>nvidia-container-cli list --binaries --libraries\<close>.\<close>

definition gpuContainerCli :: "world \<Rightarrow> state \<Rightarrow> (error + string list) \<times> state" where
  "gpuContainerCli w s =
     (case exec_LookPath w ''nvidia-container-cli'' s of
        (Inl err, s1) \<Rightarrow> (Inl (Errorf ''could not find nvidia-container-cli'' err), s1)
      | (Inr nvidiaCLIPath, s1) \<Rightarrow>
          (case exec_Command w nvidiaCLIPath [''list'', ''--binaries'', ''--libraries''] s1 of
             (Inl err, s2) \<Rightarrow>
               (Inl (Errorf ''could not execute nvidia-container-cli list'' err), s2)
           | (Inr out, s2) \<Rightarrow> (Inr (scanCli (ScanLines out) []), s2)))"

text \<open>Package \<open>gpuutils\<close>: the same with \<open>--ipcs\<close> added to the arguments.\<close>

definition gpuutils_gpuContainerCli :: "world \<Rightarrow> state \<Rightarrow> (error + string list) \<times> state" where
  "gpuutils_gpuContainerCli w s =
     (case exec_LookPath w ''nvidia-container-cli'' s of
        (Inl err, s1) \<Rightarrow> (Inl (Errorf ''no nvidia-container-cli present'' err), s1)
      | (Inr command, s1) \<Rightarrow>
          (case exec_Command w command
                  [''list'', ''--binaries'', ''--ipcs'', ''--libraries''] s1 of
             (Inl err, s2) \<Rightarrow>
               (Inl (Errorf ''Unable to execute nvidia-container-cli'' err), s2)
           | (Inr out, s2) \<Rightarrow> (Inr (scanCli (ScanLines out) []), s2)))"

text \<open>Package \<open>gpu\<close>: the scanner loop of \<open>gpuliblist\<close>.\<close>

fun scanLiblist :: "string list \<Rightarrow> string list \<Rightarrow> string list" where
  "scanLiblist [] libs = libs"
| "scanLiblist (text # rest) libs =
     (let line = TrimSpace text in
      if line \<noteq> [] \<and> hd line \<noteq> CHR ''#''
      then scanLiblist rest (libs @ [line])
      else scanLiblist rest libs)"

definition gpuliblist :: "world \<Rightarrow> string \<Rightarrow> string \<Rightarrow> state \<Rightarrow> (error + string list) \<times> state" where
  "gpuliblist w gpuDir filename s =
     (let gpuliblistPath = filepathJoin w gpuDir filename in
      case os_Open w gpuliblistPath s of
        (Inl err, s1) \<Rightarrow> (Inl (Errorf (''could not open '' @ gpuliblistPath) err), s1)
      | (Inr file, s1) \<Rightarrow> (Inr (scanLiblist (ScanLines file) []), s1))"

text \<open>Package \<open>gpuutils\<close>: the scanner loop of \<open>gpuLiblist\<close>.\<close>

fun gpuutils_scanLiblist :: "string list \<Rightarrow> string list \<Rightarrow> string list" where
  "gpuutils_scanLiblist [] strArray = strArray"
| "gpuutils_scanLiblist (text # rest) strArray =
     (let line = TrimSpace text in
      if \<not> HasPrefix line ''#'' \<and> line \<noteq> []
      then gpuutils_scanLiblist rest (strArray @ [line])
      else gpuutils_scanLiblist rest strArray)"

definition gpuLiblist :: "world \<Rightarrow> string \<Rightarrow> string \<Rightarrow> state \<Rightarrow> (error + string list) \<times> state" where
  "gpuLiblist w abspath filename s =
     (case os_Open w (abspath @ ''/'' @ filename) s of
        (Inl err, s1) \<Rightarrow> (Inl (Errorf [] err), s1)
      | (Inr file, s1) \<Rightarrow> (Inr (gpuutils_scanLiblist (ScanLines file) []), s1))"

subsection \<open>The resolver\<close>

record GpuCfg =
  Platform :: string
  File :: string

text \<open>
  The local variables of the resolution loop: the sets \<open>bins\<close> and \<open>libs\<close> of
  binary paths and library names already recorded (Go maps used as sets), and the two
  result lists.
\<close>

record locals =
  bins :: "string set"
  libs :: "string set"
  libraries :: "string list"
  binaries :: "string list"

definition locals0 :: locals where
  "locals0 = \<lparr>bins = {}, libs = {}, libraries = [], binaries = []\<rparr>"

text \<open>
  The map \<open>ldCache\<close> from library path to library name, as the list of its entries
  with one entry for each key; \<open>ldCache[libPath] = libName\<close> is \<open>AList.update\<close>.
\<close>

fun buildLdCache :: "(string \<times> string) list \<Rightarrow> (string \<times> string) list \<Rightarrow> (string \<times> string) list" where
  "buildLdCache [] ldCache = ldCache"
| "buildLdCache ((group1, group2) # rest) ldCache =
     (let libName = TrimSpace group1;
          libPath = TrimSpace group2
      in buildLdCache rest (AList.update libPath libName ldCache))"

text \<open>
  \<open>for libPath, libName := range ldCache\<close>, for the candidate \<open>gpuFile\<close>, over the
  entries in the order of the visit.
\<close>

fun rangeLdCache :: "world \<Rightarrow> Machine \<Rightarrow> string \<Rightarrow> (string \<times> string) list \<Rightarrow> locals \<times> state \<Rightarrow> locals \<times> state" where
  "rangeLdCache w machine gpuFile [] ls = ls"
| "rangeLdCache w machine gpuFile ((libPath, libName) # rest) (l, s) =
     (if \<not> HasPrefix libName gpuFile then rangeLdCache w machine gpuFile rest (l, s)
      else if libName \<in> libs l then rangeLdCache w machine gpuFile rest (l, s)
      else (case elf_Open w libPath s of
              (Inl err, s1) \<Rightarrow> rangeLdCache w machine gpuFile rest (l, s1)
            | (Inr elibMachine, s1) \<Rightarrow>
                if elibMachine = machine
                then rangeLdCache w machine gpuFile rest
                       (l\<lparr>libs := insert libName (libs l),
                          libraries := libraries l @ [libPath]\<rparr>, s1)
                else rangeLdCache w machine gpuFile rest (l, s1)))"

text \<open>
  \<open>for _, gpuFile := range gpuFiles\<close>; \<open>i\<close> counts the candidates already handled.
\<close>

fun rangeGpuFiles :: "world \<Rightarrow> Machine \<Rightarrow> (string \<times> string) list \<Rightarrow> string list \<Rightarrow> nat \<Rightarrow> locals \<times> state \<Rightarrow> locals \<times> state" where
  "rangeGpuFiles w machine ldCache [] i ls = ls"
| "rangeGpuFiles w machine ldCache (gpuFile # rest) i (l, s) =
     (if Contains gpuFile ''.so''
      then rangeGpuFiles w machine ldCache rest (Suc i)
             (rangeLdCache w machine gpuFile (mapRange w i ldCache) (l, s))
      else (case exec_LookPath w gpuFile s of
              (Inl err, s1) \<Rightarrow> rangeGpuFiles w machine ldCache rest (Suc i) (l, s1)
            | (Inr binary, s1) \<Rightarrow>
                if binary \<in> bins l
                then rangeGpuFiles w machine ldCache rest (Suc i) (l, s1)
                else rangeGpuFiles w machine ldCache rest (Suc i)
                       (l\<lparr>bins := insert binary (bins l),
                          binaries := binaries l @ [binary]\<rparr>, s1)))"

type_synonym result = "string list \<times> string list \<times> error option"

text \<open>
  Package \<open>gpu\<close>, \<open>Paths\<close> from the call of \<open>ldconfig\<close> to the end, with the candidates
  \<open>gpuFiles\<close> in hand. A \<open>nil\<close> slice is the empty list.
\<close>

definition Paths_ldconfig :: "world \<Rightarrow> string list \<Rightarrow> state \<Rightarrow> result \<times> state" where
  "Paths_ldconfig w gpuFiles s =
     (case exec_Command w ''ldconfig'' [''-p''] s of
        (Inl err, s1) \<Rightarrow> (([], [], Some (Errorf ''could not execute ldconfig'' err)), s1)
      | (Inr out, s1) \<Rightarrow>
          (case regexpCompile w of
             None \<Rightarrow>
               (([], [], Some (Errorf ''could not compile ldconfig regexp'' ErrRegexp)), s1)
           | Some r \<Rightarrow>
               (case elf_Open w ''/proc/self/exe'' s1 of
                  (Inl err, s2) \<Rightarrow>
                    (([], [], Some (Errorf ''could not open /proc/self/exe'' err)), s2)
                | (Inr machine, s2) \<Rightarrow>
                    (let ldCache = buildLdCache (r out) [];
                         (l, s3) = rangeGpuFiles w machine ldCache gpuFiles 0 (locals0, s2)
                     in ((libraries l, binaries l, None), s3)))))"

text \<open>
  \<open>Paths\<close> after the override of \<open>PATH\<close>. The source calls \<open>gpuliblist(gpuDir)\<close>
  with the file name left out; the model passes \<open>gpu.File\<close>, the name the error
  message and \<open>GetGpuPath\<close> use.
\<close>

definition Paths_body :: "world \<Rightarrow> string \<Rightarrow> GpuCfg \<Rightarrow> state \<Rightarrow> result \<times> state" where
  "Paths_body w gpuDir gpu s =
     (case gpuContainerCli w s of
        (Inr gpuFiles, s1) \<Rightarrow> Paths_ldconfig w gpuFiles s1
      | (Inl err, s1) \<Rightarrow>
          (case gpuliblist w gpuDir (File gpu) s1 of
             (Inl err2, s2) \<Rightarrow>
               (([], [], Some (Errorf (''could not read '' @ File gpu) err2)), s2)
           | (Inr gpuFiles, s2) \<Rightarrow> Paths_ldconfig w gpuFiles s2))"

text \<open>
  \<open>Paths\<close>: the deferred \<open>os.Setenv\<close> runs when the function returns, whatever the
  return statement.
\<close>

definition Paths :: "world \<Rightarrow> string \<Rightarrow> string \<Rightarrow> GpuCfg \<Rightarrow> state \<Rightarrow> result \<times> state" where
  "Paths w gpuDir envPath gpu s =
     (if envPath \<noteq> []
      then (let (oldPath, s1) = os_Getenv ''PATH'' s;
                s2 = os_Setenv ''PATH'' envPath s1;
                (res, s3) = Paths_body w gpuDir gpu s2
            in (res, os_Setenv ''PATH'' oldPath s3))
      else Paths_body w gpuDir gpu s)"

text \<open>
  Package \<open>gpuutils\<close>, \<open>GetGpuPath\<close>: the results are named, so a bare \<open>return\<close>
  gives the lists built so far and the last error assigned.
\<close>

definition GetGpuPath_ldconfig :: "world \<Rightarrow> string list \<Rightarrow> state \<Rightarrow> result \<times> state" where
  "GetGpuPath_ldconfig w strArray s =
     (case exec_Command w ''ldconfig'' [''-p''] s of
        (Inl err, s1) \<Rightarrow> (([], [], Some err), s1)
      | (Inr out, s1) \<Rightarrow>
          (case regexpCompile w of
             None \<Rightarrow> (([], [], Some ErrRegexp), s1)
           | Some r \<Rightarrow>
               (case elf_Open w ''/proc/self/exe'' s1 of
                  (Inl err, s2) \<Rightarrow> (([], [], Some err), s2)
                | (Inr machine, s2) \<Rightarrow>
                    (let ldCache = buildLdCache (r out) [];
                         (l, s3) = rangeGpuFiles w machine ldCache strArray 0 (locals0, s2)
                     in ((libraries l, binaries l, None), s3)))))"

definition GetGpuPath_body :: "world \<Rightarrow> string \<Rightarrow> GpuCfg \<Rightarrow> state \<Rightarrow> result \<times> state" where
  "GetGpuPath_body w abspath gpu s =
     (case gpuutils_gpuContainerCli w s of
        (Inr strArray, s1) \<Rightarrow> GetGpuPath_ldconfig w strArray s1
      | (Inl err, s1) \<Rightarrow>
          (case gpuLiblist w abspath (File gpu) s1 of
             (Inl err2, s2) \<Rightarrow> (([], [], Some err2), s2)
           | (Inr strArray, s2) \<Rightarrow> GetGpuPath_ldconfig w strArray s2))"

definition GetGpuPath :: "world \<Rightarrow> string \<Rightarrow> string \<Rightarrow> GpuCfg \<Rightarrow> state \<Rightarrow> result \<times> state" where
  "GetGpuPath w abspath envPath gpu s =
     (if envPath \<noteq> []
      then (let (oldPath, s1) = os_Getenv ''PATH'' s;
                s2 = os_Setenv ''PATH'' envPath s1;
                (res, s3) = GetGpuPath_body w abspath gpu s2
            in (res, os_Setenv ''PATH'' oldPath s3))
      else GetGpuPath_body w abspath gpu s)"

subsection \<open>Example hosts\<close>

text \<open>
  A host without the helper tool: the manifest \<open>/etc/nvliblist.conf\<close> names one binary
  and one library, the linker cache holds \<open>libfoo.so.1\<close>, and the process and the
  library are both built for machine 62 (x86-64).
\<close>

definition hostWorld :: world where
  "hostWorld =
     \<lparr>lookPath = (\<lambda>path file. if path = ''/opt/bin'' \<and> file = ''nvidia-smi''
                                then Some ''/opt/bin/nvidia-smi'' else None),
      runCommand = (\<lambda>path name args. if name = ''ldconfig'' then Some ''cache'' else None),
      readFile = (\<lambda>name. if name = ''/etc/nvliblist.conf''
                          then Some (''# comment'' @ [CHR 0x0A, CHR 0x0A] @ ''nvidia-smi''
                                     @ [CHR 0x0A] @ ''libfoo.so'' @ [CHR 0x0A])
                          else None),
      elfMachine = (\<lambda>name. if name = ''/proc/self/exe'' \<or> name = ''/usr/lib/libfoo.so.1''
                            then Some 62 else None),
      regexpCompile = Some (\<lambda>out. [(''libfoo.so.1 '', ''/usr/lib/libfoo.so.1'')]),
      filepathJoin = (\<lambda>dir name. dir @ ''/'' @ name),
      mapRange = (\<lambda>i al. al)\<rparr>"

definition nvCfg :: GpuCfg where
  "nvCfg = \<lparr>Platform = ''nv'', File = ''nvliblist.conf''\<rparr>"

definition state0 :: state where
  "state0 = \<lparr>environ = [''PATH'' \<mapsto> ''/usr/bin''], trace = []\<rparr>"

text \<open>The same host with no command that can be run.\<close>

definition noLdconfigWorld :: world where
  "noLdconfigWorld = hostWorld\<lparr>runCommand := (\<lambda>path name args. None)\<rparr>"

text \<open>
  A host with a 32-bit and a 64-bit build of \<open>libfoo.so.1\<close> under the same name,
  and a host whose cache listing names one path twice, under two names.
\<close>

definition multiarchWorld :: world where
  "multiarchWorld = hostWorld
     \<lparr>elfMachine := (\<lambda>name. if name = ''/proc/self/exe'' \<or> name = ''/usr/lib64/libfoo.so.1''
                              then Some 62
                              else if name = ''/usr/lib32/libfoo.so.1'' then Some 3 else None),
      regexpCompile := Some (\<lambda>out. [(''libfoo.so.1'', ''/usr/lib32/libfoo.so.1''),
                                       (''libfoo.so.1'', ''/usr/lib64/libfoo.so.1'')])\<rparr>"

definition aliasWorld :: world where
  "aliasWorld = hostWorld
     \<lparr>regexpCompile := Some (\<lambda>out. [(''libfoo.so.1'', ''/usr/lib/libfoo.so.1''),
                                       (''libfoo.so'', ''/usr/lib/libfoo.so.1'')])\<rparr>"

text \<open>A host on which every name is found by the executable search, as it is.\<close>

definition softwareWorld :: world where
  "softwareWorld = hostWorld\<lparr>lookPath := (\<lambda>path file. Some file)\<rparr>"

text \<open>
  A host with the helper tool, which lists one library and one binary; a host without
  helper tool and without manifest; a host on which no ELF file can be opened.
\<close>

definition cliWorld :: world where
  "cliWorld = hostWorld
     \<lparr>lookPath := (\<lambda>path file. if file = ''nvidia-container-cli''
                                  then Some ''/usr/bin/nvidia-container-cli''
                                  else if file = ''/usr/bin/nvidia-smi'' then Some file else None),
      runCommand := (\<lambda>path name args.
                       if name = ''/usr/bin/nvidia-container-cli''
                       then Some (''/usr/lib/libfoo.so.1'' @ [CHR 0x0A] @ ''/usr/bin/nvidia-smi''
                                  @ [CHR 0x0A])
                       else if name = ''ldconfig'' then Some ''cache'' else None)\<rparr>"

definition bareWorld :: world where
  "bareWorld = hostWorld\<lparr>readFile := (\<lambda>name. None)\<rparr>"

definition noSelfWorld :: world where
  "noSelfWorld = hostWorld\<lparr>elfMachine := (\<lambda>name. None)\<rparr>"

text \<open>A host on which \<open>nvidia-smi\<close> is found when \<open>PATH\<close> is \<open>/usr/bin\<close>, and only then.\<close>

definition usrBinWorld :: world where
  "usrBinWorld = hostWorld
     \<lparr>lookPath := (\<lambda>path file. if path = ''/usr/bin'' \<and> file = ''nvidia-smi''
                                  then Some ''/usr/bin/nvidia-smi'' else None)\<rparr>"

text \<open>
  The host without helper tool, with a manifest whose lines carry white space: spaces, a
  carriage return, a tab and a no-break space (U+00A0).
\<close>

definition blanksWorld :: world where
  "blanksWorld = hostWorld
     \<lparr>readFile := (\<lambda>name. if name = ''/etc/nvliblist.conf''
                           then Some (''# comment'' @ [CHR 0x0A, CHR 0x0A]
                                      @ ''  nvidia-smi '' @ [CHR 0x0D, CHR 0x0A]
                                      @ [CHR 0x09] @ ''libfoo.so'' @ [CHR 0xC2, CHR 0xA0, CHR 0x0A]
                                      @ '' #x'' @ [CHR 0x0A])
                           else None)\<rparr>"

subsection \<open>Vocabulary of the proofs\<close>

text \<open>
  \<open>runs P f env\<close>: started in any state whose environment is \<open>env\<close>, the computation
  \<open>f\<close> returns one and the same result, leaves the environment as it is and appends
  one and the same list of events to the trace, each of them satisfying \<open>P\<close>.
\<close>

definition runs :: "(event \<Rightarrow> bool) \<Rightarrow> (state \<Rightarrow> 'a \<times> state) \<Rightarrow> (string \<rightharpoonup> string) \<Rightarrow> bool" where
  "runs P f env \<longleftrightarrow>
     (\<exists>r tr. (\<forall>e \<in> set tr. P e) \<and>
        (\<forall>t. environ t = env \<longrightarrow> f t = (r, t\<lparr>trace := trace t @ tr\<rparr>)))"

text \<open>
  \<open>grows L B l l'\<close>: the locals \<open>l'\<close> are \<open>l\<close> with library entries appended, whose
  names are new, pairwise different and satisfy \<open>L\<close>, and with binaries appended, which
  are new, pairwise different and satisfy \<open>B\<close>.
\<close>

definition grows :: "(string \<times> string \<Rightarrow> bool) \<Rightarrow> (string \<Rightarrow> bool) \<Rightarrow> locals \<Rightarrow> locals \<Rightarrow> bool" where
  "grows L B l l' \<longleftrightarrow>
     (\<exists>al ab.
        libraries l' = libraries l @ map fst al \<and> libs l' = libs l \<union> snd ` set al \<and>
        distinct (map snd al) \<and> (\<forall>(p, n) \<in> set al. n \<notin> libs l \<and> L (p, n)) \<and>
        binaries l' = binaries l @ ab \<and> bins l' = bins l \<union> set ab \<and>
        distinct ab \<and> (\<forall>b \<in> set ab. b \<notin> bins l \<and> B b))"

section \<open>Properties\<close>

subsection \<open>Auxiliary facts\<close>

lemma splitAfterFrom_nonempty: "splitAfterFrom sep piece s \<noteq> []"
  by (induction sep piece s rule: splitAfterFrom.induct) simp_all

lemma SplitAfter_nonempty: "SplitAfter s sep \<noteq> []"
  by (simp add: SplitAfter_def splitAfterFrom_nonempty)

lemma mset_single_list: "mset xs = {#x#} \<Longrightarrow> xs = [x]"
  by (cases xs) (auto split: if_splits)

lemma mapRange_ok_hostWorld: "mapRange_ok hostWorld"
  by (simp add: mapRange_ok_def hostWorld_def)

subsection \<open>Computations and their traces\<close>

lemma runsI:
  "(\<forall>e \<in> set tr. P e) \<Longrightarrow> (\<And>t. environ t = env \<Longrightarrow> f t = (r, t\<lparr>trace := trace t @ tr\<rparr>))
   \<Longrightarrow> runs P f env"
  unfolding runs_def by blast

lemma runs_return: "runs P (\<lambda>t. (r, t)) env"
  by (rule runsI [of "[]"]) simp_all

lemma runs_bind:
  assumes f: "runs P f env" and g: "\<And>r. runs P (g r) env"
  shows "runs P (\<lambda>t. case f t of (r, t') \<Rightarrow> g r t') env"
proof -
  from f obtain r tr where tr: "\<forall>e \<in> set tr. P e"
    and ft: "\<And>t. environ t = env \<Longrightarrow> f t = (r, t\<lparr>trace := trace t @ tr\<rparr>)"
    unfolding runs_def by blast
  from g [of r] obtain r' tr' where tr': "\<forall>e \<in> set tr'. P e"
    and gt: "\<And>t. environ t = env \<Longrightarrow> g r t = (r', t\<lparr>trace := trace t @ tr'\<rparr>)"
    unfolding runs_def by blast
  show ?thesis
  proof (rule runsI [of "tr @ tr'" _ _ _ r'])
    show "\<forall>e \<in> set (tr @ tr'). P e" using tr tr' by auto
  next
    fix t :: state assume t: "environ t = env"
    then show "(case f t of (r, t') \<Rightarrow> g r t') = (r', t\<lparr>trace := trace t @ tr @ tr'\<rparr>)"
      by (simp add: ft gt)
  qed
qed

lemma runs_exec_LookPath: "P (EvLookPath file) \<Longrightarrow> runs P (exec_LookPath w file) env"
  by (rule runsI [of "[EvLookPath file]"]) (simp_all add: exec_LookPath_def)

lemma runs_exec_Command: "P (EvCommand name args) \<Longrightarrow> runs P (exec_Command w name args) env"
  by (rule runsI [of "[EvCommand name args]"]) (simp_all add: exec_Command_def)

lemma runs_os_Open: "P (EvOpen name) \<Longrightarrow> runs P (os_Open w name) env"
  by (rule runsI [of "[EvOpen name]"]) (simp_all add: os_Open_def)

lemma runs_elf_Open: "P (EvElfOpen name) \<Longrightarrow> runs P (elf_Open w name) env"
  by (rule runsI [of "[EvElfOpen name]"]) (simp_all add: elf_Open_def)


lemma runs_sum:
  "(\<And>a. runs P (\<lambda>t. f a t) env) \<Longrightarrow> (\<And>b. runs P (\<lambda>t. g b t) env)
   \<Longrightarrow> runs P (\<lambda>t. case r of Inl a \<Rightarrow> f a t | Inr b \<Rightarrow> g b t) env"
  by (cases r) simp_all

lemma runs_option:
  "runs P (\<lambda>t. f t) env \<Longrightarrow> (\<And>b. runs P (\<lambda>t. g b t) env)
   \<Longrightarrow> runs P (\<lambda>t. case r of None \<Rightarrow> f t | Some b \<Rightarrow> g b t) env"
  by (cases r) simp_all

lemma runs_if:
  "(c \<Longrightarrow> runs P (\<lambda>t. f t) env) \<Longrightarrow> (\<not> c \<Longrightarrow> runs P (\<lambda>t. g t) env)
   \<Longrightarrow> runs P (\<lambda>t. if c then f t else g t) env"
  by (cases c) simp_all

lemma runs_gpuContainerCli:
  assumes "P (EvLookPath ''nvidia-container-cli'')" and "\<And>name args. P (EvCommand name args)"
  shows "runs P (gpuContainerCli w) env"
  unfolding gpuContainerCli_def [abs_def]
  by (intro runs_bind runs_sum runs_return runs_exec_LookPath runs_exec_Command assms)

lemma runs_gpuliblist:
  assumes "\<And>name. P (EvOpen name)"
  shows "runs P (gpuliblist w gpuDir filename) env"
  unfolding gpuliblist_def [abs_def] Let_def
  by (intro runs_bind runs_sum runs_return runs_os_Open assms)

lemma runs_rangeLdCache:
  assumes "\<And>name. P (EvElfOpen name)"
  shows "runs P (\<lambda>t. rangeLdCache w m g es (l, t)) env"
proof (induction es arbitrary: l)
  case Nil
  show ?case by (simp add: runs_return)
next
  case (Cons e es)
  obtain p n where e: "e = (p, n)" by (cases e)
  show ?case unfolding e rangeLdCache.simps
    by (intro runs_if runs_bind runs_sum Cons.IH runs_elf_Open assms)
qed

lemma runs_rangeGpuFiles:
  assumes "\<And>name. P (EvElfOpen name)"
    and "\<And>c. c \<in> set cs \<Longrightarrow> \<not> Contains c ''.so'' \<Longrightarrow> P (EvLookPath c)"
  shows "runs P (\<lambda>t. rangeGpuFiles w m ldCache cs i (l, t)) env"
  using assms(2)
proof (induction cs arbitrary: l i)
  case Nil
  show ?case by (simp add: runs_return)
next
  case (Cons c cs)
  have rest: "\<And>l i. runs P (\<lambda>t. rangeGpuFiles w m ldCache cs i (l, t)) env"
    using Cons by simp
  have step: "runs P (\<lambda>t. case rangeLdCache w m c (mapRange w i ldCache) (l, t) of
                  (l', t') \<Rightarrow> rangeGpuFiles w m ldCache cs (Suc i) (l', t')) env"
    by (intro runs_bind runs_rangeLdCache rest assms(1))
  show ?case
  proof (cases "Contains c ''.so''")
    case True
    with step show ?thesis by (simp add: case_prod_unfold)
  next
    case False
    then have "P (EvLookPath c)" using Cons.prems by simp
    then have "runs P (\<lambda>t. case exec_LookPath w c t of
              (Inl err, s1) \<Rightarrow> rangeGpuFiles w m ldCache cs (Suc i) (l, s1)
            | (Inr binary, s1) \<Rightarrow>
                if binary \<in> bins l
                then rangeGpuFiles w m ldCache cs (Suc i) (l, s1)
                else rangeGpuFiles w m ldCache cs (Suc i)
                       (l\<lparr>bins := insert binary (bins l),
                          binaries := binaries l @ [binary]\<rparr>, s1)) env"
      by (intro runs_bind runs_sum runs_if runs_exec_LookPath rest)
    with False show ?thesis by simp
  qed
qed

lemma runsD:
  assumes "runs P f (environ s)"
  obtains r tr where "\<forall>e \<in> set tr. P e"
    and "\<And>t. environ t = environ s \<Longrightarrow> f t = (r, t\<lparr>trace := trace t @ tr\<rparr>)"
  using assms unfolding runs_def by blast

lemma runs_gpuutils_gpuContainerCli:
  assumes "P (EvLookPath ''nvidia-container-cli'')" and "\<And>name args. P (EvCommand name args)"
  shows "runs P (gpuutils_gpuContainerCli w) env"
  unfolding gpuutils_gpuContainerCli_def [abs_def]
  by (intro runs_bind runs_sum runs_return runs_exec_LookPath runs_exec_Command assms)

lemma runs_gpuLiblist:
  assumes "\<And>name. P (EvOpen name)"
  shows "runs P (gpuLiblist w abspath filename) env"
  unfolding gpuLiblist_def [abs_def]
  by (intro runs_bind runs_sum runs_return runs_os_Open assms)

lemma runs_Paths_ldconfig:
  assumes "\<And>name args. P (EvCommand name args)" and "\<And>name. P (EvElfOpen name)"
    and "\<And>c. c \<in> set gpuFiles \<Longrightarrow> \<not> Contains c ''.so'' \<Longrightarrow> P (EvLookPath c)"
  shows "runs P (Paths_ldconfig w gpuFiles) env"
  unfolding Paths_ldconfig_def [abs_def] Let_def
  by (intro runs_bind runs_sum runs_option runs_return runs_exec_Command runs_elf_Open
        runs_rangeGpuFiles assms)

lemma runs_GetGpuPath_ldconfig:
  assumes "\<And>name args. P (EvCommand name args)" and "\<And>name. P (EvElfOpen name)"
    and "\<And>c. c \<in> set strArray \<Longrightarrow> \<not> Contains c ''.so'' \<Longrightarrow> P (EvLookPath c)"
  shows "runs P (GetGpuPath_ldconfig w strArray) env"
  unfolding GetGpuPath_ldconfig_def [abs_def] Let_def
  by (intro runs_bind runs_sum runs_option runs_return runs_exec_Command runs_elf_Open
        runs_rangeGpuFiles assms)

lemma runs_Paths_body:
  assumes "\<And>file. P (EvLookPath file)" and "\<And>name args. P (EvCommand name args)"
    and "\<And>name. P (EvOpen name)" and "\<And>name. P (EvElfOpen name)"
  shows "runs P (Paths_body w gpuDir gpu) env"
  unfolding Paths_body_def [abs_def]
  by (intro runs_bind runs_sum runs_return runs_gpuContainerCli runs_gpuliblist
        runs_Paths_ldconfig assms)

lemma runs_GetGpuPath_body:
  assumes "\<And>file. P (EvLookPath file)" and "\<And>name args. P (EvCommand name args)"
    and "\<And>name. P (EvOpen name)" and "\<And>name. P (EvElfOpen name)"
  shows "runs P (GetGpuPath_body w abspath gpu) env"
  unfolding GetGpuPath_body_def [abs_def]
  by (intro runs_bind runs_sum runs_return runs_gpuutils_gpuContainerCli runs_gpuLiblist
        runs_GetGpuPath_ldconfig assms)

lemma override_scoped:
  assumes "envPath \<noteq> []" and "runs P body ((environ s)(''PATH'' \<mapsto> envPath))"
    and "CHR 0x00 \<notin> set envPath" and "CHR 0x00 \<notin> set (getenv (environ s) ''PATH'')"
  shows "\<exists>r tr. (\<forall>e \<in> set tr. P e) \<and>
           body (s\<lparr>environ := (environ s)(''PATH'' \<mapsto> envPath)\<rparr>)
             = (r, s\<lparr>environ := (environ s)(''PATH'' \<mapsto> envPath), trace := trace s @ tr\<rparr>) \<and>
           (let (oldPath, s1) = os_Getenv ''PATH'' s;
                s2 = os_Setenv ''PATH'' envPath s1;
                (res, s3) = body s2
            in (res, os_Setenv ''PATH'' oldPath s3))
             = (r, s\<lparr>environ := (environ s)(''PATH'' \<mapsto> getenv (environ s) ''PATH''),
                    trace := trace s @ [EvGetenv ''PATH'', EvSetenv ''PATH'' envPath] @ tr
                               @ [EvSetenv ''PATH'' (getenv (environ s) ''PATH'')]\<rparr>)"
proof -
  let ?env = "(environ s)(''PATH'' \<mapsto> envPath)"
  from assms(2) obtain r tr where tr: "\<forall>e \<in> set tr. P e"
    and run: "\<And>t. environ t = ?env \<Longrightarrow> body t = (r, t\<lparr>trace := trace t @ tr\<rparr>)"
    unfolding runs_def by blast
  have 1: "body (s\<lparr>environ := ?env\<rparr>) = (r, s\<lparr>environ := ?env, trace := trace s @ tr\<rparr>)"
    using run [of "s\<lparr>environ := ?env\<rparr>"] by simp
  have 2: "body (s\<lparr>environ := ?env, trace := trace s @ [EvGetenv ''PATH'', EvSetenv ''PATH'' envPath]\<rparr>)
      = (r, s\<lparr>environ := ?env,
              trace := trace s @ [EvGetenv ''PATH'', EvSetenv ''PATH'' envPath] @ tr\<rparr>)"
    using run [of "s\<lparr>environ := ?env,
        trace := trace s @ [EvGetenv ''PATH'', EvSetenv ''PATH'' envPath]\<rparr>"] by simp
  show ?thesis
    by (rule exI [of _ r], rule exI [of _ tr])
       (simp add: tr 1 2 os_Getenv_def os_Setenv_def assms(3,4))
qed

subsection \<open>What each loop adds to the locals\<close>

lemma grows_refl: "grows L B l l"
  unfolding grows_def by (rule exI [of _ "[]"], rule exI [of _ "[]"]) simp

lemma grows_trans:
  assumes "grows L B l l1" and "grows L B l1 l2"
  shows "grows L B l l2"
proof -
  from assms(1) obtain al ab where 1:
    "libraries l1 = libraries l @ map fst al" "libs l1 = libs l \<union> snd ` set al"
    "distinct (map snd al)" "\<forall>(p, n) \<in> set al. n \<notin> libs l \<and> L (p, n)"
    "binaries l1 = binaries l @ ab" "bins l1 = bins l \<union> set ab"
    "distinct ab" "\<forall>b \<in> set ab. b \<notin> bins l \<and> B b"
    unfolding grows_def by blast
  from assms(2) obtain al' ab' where 2:
    "libraries l2 = libraries l1 @ map fst al'" "libs l2 = libs l1 \<union> snd ` set al'"
    "distinct (map snd al')" "\<forall>(p, n) \<in> set al'. n \<notin> libs l1 \<and> L (p, n)"
    "binaries l2 = binaries l1 @ ab'" "bins l2 = bins l1 \<union> set ab'"
    "distinct ab'" "\<forall>b \<in> set ab'. b \<notin> bins l1 \<and> B b"
    unfolding grows_def by blast
  show ?thesis
    unfolding grows_def
  proof (intro exI [of _ "al @ al'"] exI [of _ "ab @ ab'"] conjI)
    show "libraries l2 = libraries l @ map fst (al @ al')" using 1 2 by simp
    show "libs l2 = libs l \<union> snd ` set (al @ al')" using 1 2 by auto
    show "distinct (map snd (al @ al'))" using 1(2,3) 2(3,4) by fastforce
    show "\<forall>(p, n) \<in> set (al @ al'). n \<notin> libs l \<and> L (p, n)" using 1(2,4) 2(4) by auto
    show "binaries l2 = binaries l @ ab @ ab'" using 1 2 by simp
    show "bins l2 = bins l \<union> set (ab @ ab')" using 1 2 by auto
    show "distinct (ab @ ab')" using 1(6,7) 2(7,8) by auto
    show "\<forall>b \<in> set (ab @ ab'). b \<notin> bins l \<and> B b" using 1(6,8) 2(8) by auto
  qed
qed

lemma grows_mono:
  "grows L B l l' \<Longrightarrow> (\<And>x. L x \<Longrightarrow> L' x) \<Longrightarrow> (\<And>b. B b \<Longrightarrow> B' b) \<Longrightarrow> grows L' B' l l'"
  unfolding grows_def by (elim exE conjE, intro exI conjI) (assumption | fast)+

lemma grows_library:
  "n \<notin> libs l \<Longrightarrow> L (p, n)
   \<Longrightarrow> grows L B l (l\<lparr>libs := insert n (libs l), libraries := libraries l @ [p]\<rparr>)"
  unfolding grows_def by (rule exI [of _ "[(p, n)]"], rule exI [of _ "[]"]) simp

lemma grows_binary:
  "b \<notin> bins l \<Longrightarrow> B b
   \<Longrightarrow> grows L B l (l\<lparr>bins := insert b (bins l), binaries := binaries l @ [b]\<rparr>)"
  unfolding grows_def by (rule exI [of _ "[]"], rule exI [of _ "[b]"]) simp

lemma environ_rangeLdCache:
  "environ (snd (rangeLdCache w m g es (l, s))) = environ s"
proof (induction es arbitrary: l s)
  case Nil
  show ?case by simp
next
  case (Cons e es)
  obtain p n where e: "e = (p, n)" by (cases e)
  show ?case unfolding e
    by (simp add: Cons.IH elf_Open_def split: option.splits)
qed

lemma rangeLdCache_grows:
  "grows (\<lambda>(p, n). (p, n) \<in> set es \<and> HasPrefix n g \<and> elfMachine w p = Some m) B l
     (fst (rangeLdCache w m g es (l, s)))"
proof (induction es arbitrary: l s)
  case Nil
  show ?case by (simp add: grows_refl)
next
  case (Cons e es)
  obtain p n where e: "e = (p, n)" by (cases e)
  let ?L = "\<lambda>(p', n'). (p', n') \<in> set (e # es) \<and> HasPrefix n' g \<and> elfMachine w p' = Some m"
  have rest: "grows ?L B l' (fst (rangeLdCache w m g es (l', s')))" for l' s'
    by (rule grows_mono [OF Cons.IH]) auto
  show ?case
  proof (cases "HasPrefix n g \<and> n \<notin> libs l \<and> elfMachine w p = Some m")
    case False
    then show ?thesis unfolding e using rest [unfolded e]
      by (auto simp: elf_Open_def split: option.splits)
  next
    case True
    then have "grows ?L B l (l\<lparr>libs := insert n (libs l), libraries := libraries l @ [p]\<rparr>)"
      by (intro grows_library) (simp_all add: e)
    from grows_trans [OF this rest]
    show ?thesis using True unfolding e by (simp add: elf_Open_def)
  qed
qed

lemma rangeGpuFiles_grows:
  "grows (\<lambda>(p, n). \<exists>j c. (p, n) \<in> set (mapRange w j ldCache) \<and> c \<in> set cs \<and>
                         Contains c ''.so'' \<and> HasPrefix n c \<and> elfMachine w p = Some m)
         (\<lambda>b. \<exists>c \<in> set cs. \<not> Contains c ''.so'' \<and>
                  lookPath w (getenv (environ s) ''PATH'') c = Some b)
         l (fst (rangeGpuFiles w m ldCache cs i (l, s)))
   \<and> environ (snd (rangeGpuFiles w m ldCache cs i (l, s))) = environ s"
proof (induction cs arbitrary: l s i)
  case Nil
  show ?case by (simp add: grows_refl)
next
  case (Cons c cs)
  let ?L = "\<lambda>(p, n). \<exists>j c'. (p, n) \<in> set (mapRange w j ldCache) \<and> c' \<in> set (c # cs) \<and>
                         Contains c' ''.so'' \<and> HasPrefix n c' \<and> elfMachine w p = Some m"
  let ?B = "\<lambda>b. \<exists>c' \<in> set (c # cs). \<not> Contains c' ''.so'' \<and>
                  lookPath w (getenv (environ s) ''PATH'') c' = Some b"
  have rest: "grows ?L ?B l' (fst (rangeGpuFiles w m ldCache cs i' (l', s')))"
    and env: "environ (snd (rangeGpuFiles w m ldCache cs i' (l', s'))) = environ s"
    if "environ s' = environ s" for l' s' i'
  proof -
    from Cons.IH [where l = l' and s = s' and i = i'] that
    have g: "grows (\<lambda>(p, n). \<exists>j c. (p, n) \<in> set (mapRange w j ldCache) \<and> c \<in> set cs \<and>
                         Contains c ''.so'' \<and> HasPrefix n c \<and> elfMachine w p = Some m)
         (\<lambda>b. \<exists>c \<in> set cs. \<not> Contains c ''.so'' \<and>
                  lookPath w (getenv (environ s) ''PATH'') c = Some b)
         l' (fst (rangeGpuFiles w m ldCache cs i' (l', s')))"
      and e: "environ (snd (rangeGpuFiles w m ldCache cs i' (l', s'))) = environ s"
      by simp_all
    show "grows ?L ?B l' (fst (rangeGpuFiles w m ldCache cs i' (l', s')))"
      by (rule grows_mono [OF g]) auto
    show "environ (snd (rangeGpuFiles w m ldCache cs i' (l', s'))) = environ s"
      by (rule e)
  qed
  show ?case
  proof (cases "Contains c ''.so''")
    case True
    obtain l1 s1 where r: "rangeLdCache w m c (mapRange w i ldCache) (l, s) = (l1, s1)"
      by (cases "rangeLdCache w m c (mapRange w i ldCache) (l, s)")
    have s1: "environ s1 = environ s"
      using environ_rangeLdCache [of w m c "mapRange w i ldCache" l s] r by simp
    have "grows ?L ?B l l1"
      using rangeLdCache_grows [of "mapRange w i ldCache" c w m ?B l s] r True
      by (auto elim!: grows_mono)
    from grows_trans [OF this rest [OF s1]] env [OF s1]
    show ?thesis using True r by simp
  next
    case False
    let ?s1 = "s\<lparr>trace := trace s @ [EvLookPath c]\<rparr>"
    have s1: "environ ?s1 = environ s" by simp
    show ?thesis
    proof (cases "lookPath w (getenv (environ s) ''PATH'') c")
      case None
      with False rest [OF s1] env [OF s1] show ?thesis by (simp add: exec_LookPath_def)
    next
      case (Some b)
      show ?thesis
      proof (cases "b \<in> bins l")
        case True
        with Some False rest [OF s1] env [OF s1] show ?thesis by (simp add: exec_LookPath_def)
      next
        case notin: False
        have "grows ?L ?B l (l\<lparr>bins := insert b (bins l), binaries := binaries l @ [b]\<rparr>)"
          using notin Some False by (intro grows_binary) auto
        from grows_trans [OF this rest [OF s1]] env [OF s1]
        show ?thesis using Some False notin by (simp add: exec_LookPath_def)
      qed
    qed
  qed
qed

subsection \<open>The shape of the result\<close>

lemma distinct_buildLdCache:
  "distinct (map fst ldCache) \<Longrightarrow> distinct (map fst (buildLdCache matches ldCache))"
  by (induction matches ldCache rule: buildLdCache.induct) (simp_all add: Let_def distinct_update)

lemma buildLdCache_append:
  "buildLdCache (xs @ ys) ldCache = buildLdCache ys (buildLdCache xs ldCache)"
  by (induction xs ldCache rule: buildLdCache.induct) (simp_all add: Let_def)

lemma map_of_buildLdCache_other:
  "\<forall>(name, path) \<in> set matches. TrimSpace path \<noteq> key
   \<Longrightarrow> map_of (buildLdCache matches ldCache) key = map_of ldCache key"
  by (induction matches ldCache rule: buildLdCache.induct) (auto simp: Let_def update_conv')

lemma map_of_buildLdCache_last:
  assumes "\<forall>(name', path') \<in> set later. TrimSpace path' \<noteq> TrimSpace path"
  shows "map_of (buildLdCache (earlier @ (name, path) # later) ldCache) (TrimSpace path)
           = Some (TrimSpace name)"
  using map_of_buildLdCache_other [OF assms]
  by (simp add: buildLdCache_append Let_def update_conv')

lemma Paths_ldconfig_result:
  assumes "\<And>e. Q ([], [], Some e)"
    and "\<And>m ldCache s2. elfMachine w ''/proc/self/exe'' = Some m \<Longrightarrow> distinct (map fst ldCache)
           \<Longrightarrow> environ s2 = environ s
           \<Longrightarrow> runCommand w (getenv (environ s) ''PATH'') ''ldconfig'' [''-p''] \<noteq> None
           \<Longrightarrow> Q (libraries (fst (rangeGpuFiles w m ldCache gpuFiles 0 (locals0, s2))),
                  binaries (fst (rangeGpuFiles w m ldCache gpuFiles 0 (locals0, s2))), None)"
  shows "Q (fst (Paths_ldconfig w gpuFiles s))"
proof (cases "runCommand w (getenv (environ s) ''PATH'') ''ldconfig'' [''-p'']")
  case None
  then show ?thesis by (simp add: Paths_ldconfig_def exec_Command_def assms(1))
next
  case out: (Some out)
  show ?thesis
  proof (cases "regexpCompile w")
    case None
    with out show ?thesis by (simp add: Paths_ldconfig_def exec_Command_def assms(1))
  next
    case r: (Some r)
    show ?thesis
    proof (cases "elfMachine w ''/proc/self/exe''")
      case None
      with out r show ?thesis
        by (simp add: Paths_ldconfig_def exec_Command_def elf_Open_def assms(1))
    next
      case (Some m)
      have "distinct (map fst (buildLdCache (r out) []))"
        by (rule distinct_buildLdCache) simp
      from assms(2) [OF Some this, of "s\<lparr>trace := trace s @ [EvCommand ''ldconfig'' [''-p''],
                 EvElfOpen ''/proc/self/exe'']\<rparr>"]
      show ?thesis using out r Some
        by (simp add: Paths_ldconfig_def exec_Command_def elf_Open_def Let_def case_prod_unfold)
    qed
  qed
qed

lemma environ_gpuContainerCli: "environ (snd (gpuContainerCli w s)) = environ s"
  by (simp add: gpuContainerCli_def exec_LookPath_def exec_Command_def
      split: option.splits)

lemma environ_gpuliblist: "environ (snd (gpuliblist w gpuDir filename s)) = environ s"
  by (simp add: gpuliblist_def os_Open_def Let_def split: option.splits)

lemma Paths_body_result:
  assumes "\<And>e. Q ([], [], Some e)"
    and "\<And>m ldCache gpuFiles s2. elfMachine w ''/proc/self/exe'' = Some m
           \<Longrightarrow> distinct (map fst ldCache) \<Longrightarrow> environ s2 = environ s
           \<Longrightarrow> runCommand w (getenv (environ s) ''PATH'') ''ldconfig'' [''-p''] \<noteq> None
           \<Longrightarrow> Q (libraries (fst (rangeGpuFiles w m ldCache gpuFiles 0 (locals0, s2))),
                  binaries (fst (rangeGpuFiles w m ldCache gpuFiles 0 (locals0, s2))), None)"
  shows "Q (fst (Paths_body w gpuDir gpu s))"
proof -
  have ld: "Q (fst (Paths_ldconfig w gpuFiles s1))" if "environ s1 = environ s" for gpuFiles s1
    by (rule Paths_ldconfig_result) (simp_all add: assms that)
  obtain r s1 where cli: "gpuContainerCli w s = (r, s1)" by (cases "gpuContainerCli w s")
  have s1: "environ s1 = environ s" using environ_gpuContainerCli [of w s] cli by simp
  show ?thesis
  proof (cases r)
    case (Inr gpuFiles)
    with cli ld [OF s1] show ?thesis by (simp add: Paths_body_def)
  next
    case (Inl err)
    obtain r2 s2 where lst: "gpuliblist w gpuDir (File gpu) s1 = (r2, s2)"
      by (cases "gpuliblist w gpuDir (File gpu) s1")
    have s2: "environ s2 = environ s"
      using environ_gpuliblist [of w gpuDir "File gpu" s1] lst s1 by simp
    show ?thesis
    proof (cases r2)
      case (Inl err2)
      with cli \<open>r = Inl err\<close> lst show ?thesis by (simp add: Paths_body_def assms(1))
    next
      case (Inr gpuFiles)
      with cli \<open>r = Inl err\<close> lst ld [OF s2] show ?thesis by (simp add: Paths_body_def)
    qed
  qed
qed

lemma Paths_result:
  assumes "\<And>e. Q ([], [], Some e)"
    and "\<And>m ldCache gpuFiles s2. elfMachine w ''/proc/self/exe'' = Some m
           \<Longrightarrow> distinct (map fst ldCache)
           \<Longrightarrow> \<exists>path. runCommand w path ''ldconfig'' [''-p''] \<noteq> None
           \<Longrightarrow> Q (libraries (fst (rangeGpuFiles w m ldCache gpuFiles 0 (locals0, s2))),
                  binaries (fst (rangeGpuFiles w m ldCache gpuFiles 0 (locals0, s2))), None)"
  shows "Q (fst (Paths w gpuDir envPath gpu s))"
proof -
  have "Q (fst (Paths_body w gpuDir gpu s'))" for s'
    by (rule Paths_body_result) (auto intro: assms)
  then show ?thesis
    by (simp add: Paths_def Let_def case_prod_unfold)
qed

lemma GetGpuPath_ldconfig_result:
  assumes "\<And>e. Q ([], [], Some e)"
    and "\<And>m ldCache s2. elfMachine w ''/proc/self/exe'' = Some m \<Longrightarrow> distinct (map fst ldCache)
           \<Longrightarrow> environ s2 = environ s
           \<Longrightarrow> runCommand w (getenv (environ s) ''PATH'') ''ldconfig'' [''-p''] \<noteq> None
           \<Longrightarrow> Q (libraries (fst (rangeGpuFiles w m ldCache strArray 0 (locals0, s2))),
                  binaries (fst (rangeGpuFiles w m ldCache strArray 0 (locals0, s2))), None)"
  shows "Q (fst (GetGpuPath_ldconfig w strArray s))"
proof (cases "runCommand w (getenv (environ s) ''PATH'') ''ldconfig'' [''-p'']")
  case None
  then show ?thesis by (simp add: GetGpuPath_ldconfig_def exec_Command_def assms(1))
next
  case out: (Some out)
  show ?thesis
  proof (cases "regexpCompile w")
    case None
    with out show ?thesis by (simp add: GetGpuPath_ldconfig_def exec_Command_def assms(1))
  next
    case r: (Some r)
    show ?thesis
    proof (cases "elfMachine w ''/proc/self/exe''")
      case None
      with out r show ?thesis
        by (simp add: GetGpuPath_ldconfig_def exec_Command_def elf_Open_def assms(1))
    next
      case (Some m)
      have "distinct (map fst (buildLdCache (r out) []))"
        by (rule distinct_buildLdCache) simp
      from assms(2) [OF Some this, of "s\<lparr>trace := trace s @ [EvCommand ''ldconfig'' [''-p''],
                 EvElfOpen ''/proc/self/exe'']\<rparr>"]
      show ?thesis using out r Some
        by (simp add: GetGpuPath_ldconfig_def exec_Command_def elf_Open_def Let_def
            case_prod_unfold)
    qed
  qed
qed

lemma environ_gpuutils_gpuContainerCli: "environ (snd (gpuutils_gpuContainerCli w s)) = environ s"
  by (simp add: gpuutils_gpuContainerCli_def exec_LookPath_def exec_Command_def
      split: option.splits)

lemma environ_gpuLiblist: "environ (snd (gpuLiblist w abspath filename s)) = environ s"
  by (simp add: gpuLiblist_def os_Open_def split: option.splits)

lemma GetGpuPath_body_result:
  assumes "\<And>e. Q ([], [], Some e)"
    and "\<And>m ldCache strArray s2. elfMachine w ''/proc/self/exe'' = Some m
           \<Longrightarrow> distinct (map fst ldCache) \<Longrightarrow> environ s2 = environ s
           \<Longrightarrow> runCommand w (getenv (environ s) ''PATH'') ''ldconfig'' [''-p''] \<noteq> None
           \<Longrightarrow> Q (libraries (fst (rangeGpuFiles w m ldCache strArray 0 (locals0, s2))),
                  binaries (fst (rangeGpuFiles w m ldCache strArray 0 (locals0, s2))), None)"
  shows "Q (fst (GetGpuPath_body w abspath gpu s))"
proof -
  have ld: "Q (fst (GetGpuPath_ldconfig w strArray s1))"
    if "environ s1 = environ s" for strArray s1
    by (rule GetGpuPath_ldconfig_result) (simp_all add: assms that)
  obtain r s1 where cli: "gpuutils_gpuContainerCli w s = (r, s1)"
    by (cases "gpuutils_gpuContainerCli w s")
  have s1: "environ s1 = environ s"
    using environ_gpuutils_gpuContainerCli [of w s] cli by simp
  show ?thesis
  proof (cases r)
    case (Inr strArray)
    with cli ld [OF s1] show ?thesis by (simp add: GetGpuPath_body_def)
  next
    case (Inl err)
    obtain r2 s2 where lst: "gpuLiblist w abspath (File gpu) s1 = (r2, s2)"
      by (cases "gpuLiblist w abspath (File gpu) s1")
    have s2: "environ s2 = environ s"
      using environ_gpuLiblist [of w abspath "File gpu" s1] lst s1 by simp
    show ?thesis
    proof (cases r2)
      case (Inl err2)
      with cli \<open>r = Inl err\<close> lst show ?thesis by (simp add: GetGpuPath_body_def assms(1))
    next
      case (Inr strArray)
      with cli \<open>r = Inl err\<close> lst ld [OF s2] show ?thesis by (simp add: GetGpuPath_body_def)
    qed
  qed
qed

lemma GetGpuPath_result:
  assumes "\<And>e. Q ([], [], Some e)"
    and "\<And>m ldCache strArray s2. elfMachine w ''/proc/self/exe'' = Some m
           \<Longrightarrow> distinct (map fst ldCache)
           \<Longrightarrow> \<exists>path. runCommand w path ''ldconfig'' [''-p''] \<noteq> None
           \<Longrightarrow> Q (libraries (fst (rangeGpuFiles w m ldCache strArray 0 (locals0, s2))),
                  binaries (fst (rangeGpuFiles w m ldCache strArray 0 (locals0, s2))), None)"
  shows "Q (fst (GetGpuPath w abspath envPath gpu s))"
proof -
  have "Q (fst (GetGpuPath_body w abspath gpu s'))" for s'
    by (rule GetGpuPath_body_result) (auto intro: assms)
  then show ?thesis
    by (simp add: GetGpuPath_def Let_def case_prod_unfold)
qed

subsection \<open>Growth out of the empty locals\<close>

lemma grows_locals0:
  assumes "grows L B locals0 l'"
  shows "\<forall>p \<in> set (libraries l'). \<exists>n. L (p, n)"
    and "\<forall>b \<in> set (binaries l'). B b"
    and "distinct (binaries l')"
    and "(\<And>p n. L (p, n) \<Longrightarrow> f p = Some n) \<Longrightarrow> distinct (map f (libraries l'))"
proof -
  from assms obtain al ab where a:
    "libraries l' = map fst al" "distinct (map snd al)" "\<forall>(p, n) \<in> set al. L (p, n)"
    "binaries l' = ab" "distinct ab" "\<forall>b \<in> set ab. B b"
    unfolding grows_def locals0_def by auto
  show "\<forall>p \<in> set (libraries l'). \<exists>n. L (p, n)" using a(1,3) by auto
  show "\<forall>b \<in> set (binaries l'). B b" using a(4,6) by simp
  show "distinct (binaries l')" using a(4,5) by simp
  assume f: "\<And>p n. L (p, n) \<Longrightarrow> f p = Some n"
  have "map f (libraries l') = map (Some \<circ> snd) al"
    using a(1,3) f by auto
  also have "distinct \<dots>" using a(2) by (simp add: distinct_map comp_inj_on_iff inj_on_def)
  finally show "distinct (map f (libraries l'))" .
qed

lemma mapRange_ok_set: "mapRange_ok w \<Longrightarrow> set (mapRange w j al) = set al"
  unfolding mapRange_ok_def by (metis set_mset_mset)

lemma rangeGpuFiles_cache:
  assumes "mapRange_ok w"
  shows "grows (\<lambda>(p, n). (p, n) \<in> set ldCache \<and> elfMachine w p = Some m \<and>
                  (\<exists>c \<in> set cs. Contains c ''.so'' \<and> HasPrefix n c))
         (\<lambda>b. \<exists>c \<in> set cs. \<not> Contains c ''.so'' \<and>
                  lookPath w (getenv (environ s) ''PATH'') c = Some b)
         l (fst (rangeGpuFiles w m ldCache cs i (l, s)))"
  by (rule grows_mono [OF conjunct1 [OF rangeGpuFiles_grows]])
     (auto simp: mapRange_ok_set [OF assms])

lemma resolved_distinct:
  assumes "mapRange_ok w" and "distinct (map fst ldCache)"
  shows "distinct (map (map_of ldCache) (libraries (fst (rangeGpuFiles w m ldCache cs i (locals0, s)))))"
    and "distinct (libraries (fst (rangeGpuFiles w m ldCache cs i (locals0, s))))"
    and "distinct (binaries (fst (rangeGpuFiles w m ldCache cs i (locals0, s))))"
proof -
  note g = rangeGpuFiles_cache [OF assms(1), of ldCache m cs s locals0 i]
  show 1: "distinct (map (map_of ldCache) (libraries (fst (rangeGpuFiles w m ldCache cs i (locals0, s)))))"
    by (rule grows_locals0(4) [OF g]) (simp add: assms(2))
  show "distinct (libraries (fst (rangeGpuFiles w m ldCache cs i (locals0, s))))"
    using 1 by (simp add: distinct_map)
  show "distinct (binaries (fst (rangeGpuFiles w m ldCache cs i (locals0, s))))"
    by (rule grows_locals0(3) [OF g])
qed

lemmas eval_defs = Paths_def Paths_body_def Paths_ldconfig_def gpuContainerCli_def gpuliblist_def
  GetGpuPath_def GetGpuPath_body_def GetGpuPath_ldconfig_def gpuutils_gpuContainerCli_def
  gpuLiblist_def
  os_Getenv_def os_Setenv_def exec_LookPath_def exec_Command_def os_Open_def elf_Open_def
  getenv_def ScanLines_def dropCR_def MaxScanTokenSize_def TrimSpace_def TrimLeftSpace_def
  TrimRightSpace_def trimPrefixes.simps runeWidth_def spaceRunes_def locals0_def HasPrefix_def
  state0_def nvCfg_def SplitAfter_def Base_def Let_def

subsection \<open>Names marked as seen, and searches made\<close>

lemma rangeLdCache_first_compatible:
  assumes "HasPrefix n g" and "elfMachine w p2 = Some m"
  shows "n \<notin> libs l \<Longrightarrow> \<forall>(p, n') \<in> set mid. n' = n \<longrightarrow> elfMachine w p \<noteq> Some m
         \<Longrightarrow> p2 \<in> set (libraries (fst (rangeLdCache w m g (mid @ (p2, n) # post) (l, s))))"
proof (induction mid arbitrary: l s)
  case Nil
  let ?l = "l\<lparr>libs := insert n (libs l), libraries := libraries l @ [p2]\<rparr>"
  let ?s = "s\<lparr>trace := trace s @ [EvElfOpen p2]\<rparr>"
  have "prefix (libraries ?l) (libraries (fst (rangeLdCache w m g post (?l, ?s))))"
    using rangeLdCache_grows [of post g w m "\<lambda>b. False" ?l ?s]
    unfolding grows_def by auto
  then have "p2 \<in> set (libraries (fst (rangeLdCache w m g post (?l, ?s))))"
    by (auto simp: prefix_def)
  then show ?case using Nil assms by (simp add: elf_Open_def)
next
  case (Cons e mid)
  obtain p n' where e: "e = (p, n')" by (cases e)
  from Cons.prems have rest: "\<forall>(p, n') \<in> set mid. n' = n \<longrightarrow> elfMachine w p \<noteq> Some m"
    and head: "n' = n \<longrightarrow> elfMachine w p \<noteq> Some m"
    by (auto simp: e)
  have same: "p2 \<in> set (libraries (fst (rangeLdCache w m g (mid @ (p2, n) # post) (l, s'))))"
    for s'
    by (rule Cons.IH [OF Cons.prems(1) rest])
  show ?case
  proof (cases "HasPrefix n' g \<and> n' \<notin> libs l \<and> elfMachine w p = Some m")
    case False
    with same show ?thesis
      unfolding e by (auto simp: elf_Open_def split: option.splits)
  next
    case True
    with head have "n' \<noteq> n" by auto
    with Cons.prems(1)
    have "n \<notin> libs (l\<lparr>libs := insert n' (libs l), libraries := libraries l @ [p]\<rparr>)"
      by simp
    from Cons.IH [OF this rest] True show ?thesis
      unfolding e by (simp add: elf_Open_def)
  qed
qed

lemma Contains_sublist: "Contains s substr \<longleftrightarrow> sublist substr s"
  by (induction s) (simp_all add: sublist_Cons_right)

lemma Contains_iff: "Contains s substr \<longleftrightarrow> (\<exists>pre post. s = pre @ substr @ post)"
  by (simp add: Contains_sublist sublist_def)

lemma rangeGpuFiles_no_LookPath:
  assumes "Contains c ''.so''"
  shows "\<exists>tr. trace (snd (rangeGpuFiles w m ldCache cs i (l, s))) = trace s @ tr \<and>
              EvLookPath c \<notin> set tr"
proof -
  have "runs (\<lambda>e. e \<noteq> EvLookPath c) (\<lambda>t. rangeGpuFiles w m ldCache cs i (l, t)) (environ s)"
    by (rule runs_rangeGpuFiles) (use assms in auto)
  then obtain r tr where "\<forall>e \<in> set tr. e \<noteq> EvLookPath c"
    and "rangeGpuFiles w m ldCache cs i (l, s) = (r, s\<lparr>trace := trace s @ tr\<rparr>)"
    unfolding runs_def by blast
  then show ?thesis by auto
qed

subsection \<open>The providers\<close>

lemma empty_notin_spaceRunes: "[] \<notin> set spaceRunes"
  by (simp add: spaceRunes_def)

lemma runeWidth_Some:
  assumes "runeWidth encs s \<noteq> 0"
  obtains e where "e \<in> set encs" and "prefix e s" and "runeWidth encs s = length e"
proof -
  from assms obtain e where f: "find (\<lambda>e. prefix e s) encs = Some e"
    and l: "runeWidth encs s = length e"
    by (auto simp: runeWidth_def split: option.splits)
  from f have "e \<in> set encs" and "prefix e s"
    by (auto simp: find_Some_iff)
  with l that show ?thesis by blast
qed

lemma runeWidth_zero_iff:
  assumes "[] \<notin> set encs"
  shows "runeWidth encs s = 0 \<longleftrightarrow> (\<forall>e \<in> set encs. \<not> prefix e s)"
proof
  assume "runeWidth encs s = 0"
  have "find (\<lambda>e. prefix e s) encs = None"
  proof (cases "find (\<lambda>e. prefix e s) encs")
    case None
    then show ?thesis .
  next
    case (Some e)
    then have "e \<in> set encs" by (auto simp: find_Some_iff)
    moreover from Some \<open>runeWidth encs s = 0\<close> have "e = []" by (simp add: runeWidth_def)
    ultimately show ?thesis using assms by simp
  qed
  then show "\<forall>e \<in> set encs. \<not> prefix e s" by (simp add: find_None_iff)
next
  assume "\<forall>e \<in> set encs. \<not> prefix e s"
  then have "find (\<lambda>e. prefix e s) encs = None" by (simp add: find_None_iff)
  then show "runeWidth encs s = 0" by (simp add: runeWidth_def)
qed

lemma trimPrefixes_width: "runeWidth encs (trimPrefixes encs s) = 0"
proof (induction encs s rule: trimPrefixes.induct)
  case (1 encs s)
  show ?case
  proof (cases "runeWidth encs s = 0")
    case True
    then show ?thesis by (subst trimPrefixes.simps) simp
  next
    case False
    with 1 show ?thesis by (subst trimPrefixes.simps) simp
  qed
qed

lemma trimPrefixes_split:
  "\<exists>es. set es \<subseteq> set encs \<and> s = concat es @ trimPrefixes encs s"
proof (induction encs s rule: trimPrefixes.induct)
  case (1 encs s)
  show ?case
  proof (cases "runeWidth encs s = 0")
    case True
    then have "trimPrefixes encs s = s" by (subst trimPrefixes.simps) simp
    then show ?thesis by (intro exI [of _ "[]"]) simp
  next
    case False
    then obtain e where e: "e \<in> set encs" "prefix e s" "runeWidth encs s = length e"
      by (rule runeWidth_Some)
    from 1 [OF False] e(3) obtain es where es: "set es \<subseteq> set encs"
      "drop (length e) s = concat es @ trimPrefixes encs (drop (length e) s)"
      by auto
    have t: "trimPrefixes encs s = trimPrefixes encs (drop (length e) s)"
      using False e(3) by (subst trimPrefixes.simps) simp
    from e(2) have "s = e @ drop (length e) s" by (auto simp: prefix_def)
    with es(2) have "s = concat (e # es) @ trimPrefixes encs s"
      unfolding t by simp
    with e(1) es(1) show ?thesis by (intro exI [of _ "e # es"]) simp
  qed
qed

lemma TrimSpace_spec:
  "(\<exists>l r. s = l @ TrimSpace s @ r \<and> white l \<and> white r) \<and>
   (\<forall>e \<in> set spaceRunes. \<not> prefix e (TrimSpace s) \<and> \<not> suffix e (TrimSpace s))"
proof -
  let ?m = "TrimLeftSpace s" and ?t = "TrimSpace s"
  obtain esl where l: "set esl \<subseteq> set spaceRunes" "s = concat esl @ ?m"
    using trimPrefixes_split [of spaceRunes s] unfolding TrimLeftSpace_def by blast
  obtain esr where r: "set esr \<subseteq> set (map rev spaceRunes)" "rev ?m = concat esr @ rev ?t"
    using trimPrefixes_split [of "map rev spaceRunes" "rev ?m"]
    unfolding TrimSpace_def TrimRightSpace_def by auto
  from r(2) have "rev (rev ?m) = rev (concat esr @ rev ?t)" by simp
  then have m: "?m = ?t @ concat (map rev (rev esr))" by (simp add: rev_concat)
  from r(1) have "set (map rev (rev esr)) \<subseteq> set spaceRunes" by auto
  then have wr: "white (concat (map rev (rev esr)))" unfolding white_def by blast
  from l(1) have wl: "white (concat esl)" unfolding white_def by blast
  from l(2) m have "s = concat esl @ ?t @ concat (map rev (rev esr))" by simp
  with wl wr have 1: "\<exists>l r. s = l @ ?t @ r \<and> white l \<and> white r" by blast
  have "runeWidth spaceRunes ?m = 0"
    unfolding TrimLeftSpace_def by (rule trimPrefixes_width)
  then have nl: "\<forall>e \<in> set spaceRunes. \<not> prefix e ?m"
    by (simp add: runeWidth_zero_iff [OF empty_notin_spaceRunes])
  have "prefix ?t ?m" using m by (metis prefixI)
  with nl have 2: "\<forall>e \<in> set spaceRunes. \<not> prefix e ?t"
    using prefix_order.order_trans by blast
  have "[] \<notin> set (map rev spaceRunes)" using empty_notin_spaceRunes by auto
  moreover have "runeWidth (map rev spaceRunes) (rev ?t) = 0"
    unfolding TrimSpace_def TrimRightSpace_def by (simp add: trimPrefixes_width)
  ultimately have "\<forall>e \<in> set (map rev spaceRunes). \<not> prefix e (rev ?t)"
    using runeWidth_zero_iff [of "map rev spaceRunes" "rev ?t"] by blast
  then have 3: "\<forall>e \<in> set spaceRunes. \<not> suffix e ?t"
    by (auto simp: suffix_to_prefix)
  from 1 2 3 show ?thesis by blast
qed

lemma scanLinesFrom_line:
  "CHR 0x0A \<notin> set l
   \<Longrightarrow> scanLinesFrom acc (l @ CHR 0x0A # rest)
         = (if MaxScanTokenSize \<le> length (acc @ l) then []
            else dropCR (acc @ l) # scanLinesFrom [] rest)"
  by (induction l arbitrary: acc) auto

lemma ScanLines_short_lines:
  assumes "\<forall>l \<in> set ls. CHR 0x0A \<notin> set l \<and> length l < MaxScanTokenSize"
  shows "scanLinesFrom [] (concat (map (\<lambda>l. l @ [CHR 0x0A]) ls) @ rest)
           = map dropCR ls @ scanLinesFrom [] rest"
  using assms by (induction ls) (simp_all add: scanLinesFrom_line)

lemma ScanLines_spec:
  assumes "\<forall>l \<in> set ls. CHR 0x0A \<notin> set l \<and> length l < MaxScanTokenSize"
  shows "ScanLines (concat (map (\<lambda>l. l @ [CHR 0x0A]) ls)) = map dropCR ls"
    and "CHR 0x0A \<notin> set long \<Longrightarrow> MaxScanTokenSize \<le> length long
         \<Longrightarrow> ScanLines (concat (map (\<lambda>l. l @ [CHR 0x0A]) ls) @ long @ CHR 0x0A # rest)
               = map dropCR ls"
  using ScanLines_short_lines [OF assms, of "[]"]
    ScanLines_short_lines [OF assms, of "long @ CHR 0x0A # rest"]
  by (simp_all add: ScanLines_def scanLinesFrom_line)

lemma scanLiblist_filter:
  "scanLiblist lines acc
     = acc @ filter (\<lambda>line. line \<noteq> [] \<and> hd line \<noteq> CHR ''#'') (map TrimSpace lines)"
  by (induction lines arbitrary: acc) (simp_all add: Let_def)

lemma HasPrefix_hash: "HasPrefix line ''#'' \<longleftrightarrow> line \<noteq> [] \<and> hd line = CHR ''#''"
  by (cases line) (auto simp: HasPrefix_def)

lemma gpuutils_scanLiblist_filter:
  "gpuutils_scanLiblist lines strArray
     = strArray @ filter (\<lambda>line. line \<noteq> [] \<and> hd line \<noteq> CHR ''#'') (map TrimSpace lines)"
  by (induction lines arbitrary: strArray) (auto simp: Let_def HasPrefix_hash)

lemma runs_trace:
  assumes "runs P f (environ s)"
  shows "\<exists>tr. trace (snd (f s)) = trace s @ tr \<and> (\<forall>e \<in> set tr. P e) \<and>
              environ (snd (f s)) = environ s"
proof -
  from assms obtain r tr where "\<forall>e \<in> set tr. P e"
    and "f s = (r, s\<lparr>trace := trace s @ tr\<rparr>)"
    unfolding runs_def by blast
  then show ?thesis by auto
qed

lemma trace_gpuContainerCli:
  "\<exists>tr. trace (snd (gpuContainerCli w s)) = trace s @ EvLookPath ''nvidia-container-cli'' # tr \<and>
        (\<forall>name. EvOpen name \<notin> set tr)"
  by (simp add: gpuContainerCli_def exec_LookPath_def exec_Command_def split: option.splits)

lemma trace_gpuutils_gpuContainerCli:
  "\<exists>tr. trace (snd (gpuutils_gpuContainerCli w s))
          = trace s @ EvLookPath ''nvidia-container-cli'' # tr \<and>
        (\<forall>name. EvOpen name \<notin> set tr)"
  by (simp add: gpuutils_gpuContainerCli_def exec_LookPath_def exec_Command_def
      split: option.splits)

lemma trace_Paths_ldconfig:
  "\<exists>tr. trace (snd (Paths_ldconfig w gpuFiles s)) = trace s @ tr \<and>
        (\<forall>name. EvOpen name \<notin> set tr)"
proof -
  have "runs (\<lambda>e. \<forall>name. e \<noteq> EvOpen name) (Paths_ldconfig w gpuFiles) (environ s)"
    by (rule runs_Paths_ldconfig) simp_all
  from runs_trace [OF this] show ?thesis by auto
qed

lemma trace_GetGpuPath_ldconfig:
  "\<exists>tr. trace (snd (GetGpuPath_ldconfig w strArray s)) = trace s @ tr \<and>
        (\<forall>name. EvOpen name \<notin> set tr)"
proof -
  have "runs (\<lambda>e. \<forall>name. e \<noteq> EvOpen name) (GetGpuPath_ldconfig w strArray) (environ s)"
    by (rule runs_GetGpuPath_ldconfig) simp_all
  from runs_trace [OF this] show ?thesis by auto
qed

lemma trace_gpuliblist:
  "\<exists>tr. trace (snd (gpuliblist w gpuDir filename s)) = trace s @ tr"
  by (simp add: gpuliblist_def os_Open_def Let_def split: option.splits)

lemma trace_gpuLiblist:
  "\<exists>tr. trace (snd (gpuLiblist w abspath filename s)) = trace s @ tr"
  by (simp add: gpuLiblist_def os_Open_def split: option.splits)

lemma Paths_body_helper_first:
  "\<exists>tr. trace (snd (Paths_body w gpuDir gpu s))
          = trace s @ EvLookPath ''nvidia-container-cli'' # tr"
proof -
  obtain r s1 where cli: "gpuContainerCli w s = (r, s1)" by (cases "gpuContainerCli w s")
  from trace_gpuContainerCli [of w s] cli obtain tr1
    where s1: "trace s1 = trace s @ EvLookPath ''nvidia-container-cli'' # tr1" by auto
  show ?thesis
  proof (cases r)
    case (Inr gpuFiles)
    from trace_Paths_ldconfig [of w gpuFiles s1] cli Inr s1 show ?thesis
      by (auto simp: Paths_body_def)
  next
    case (Inl err)
    obtain r2 s2 where lst: "gpuliblist w gpuDir (File gpu) s1 = (r2, s2)"
      by (cases "gpuliblist w gpuDir (File gpu) s1")
    from trace_gpuliblist [of w gpuDir "File gpu" s1] lst s1 obtain tr2
      where s2: "trace s2 = trace s @ EvLookPath ''nvidia-container-cli'' # tr2" by auto
    show ?thesis
    proof (cases r2)
      case (Inl err2)
      with cli \<open>r = Inl err\<close> lst s2 show ?thesis by (simp add: Paths_body_def)
    next
      case (Inr gpuFiles)
      from trace_Paths_ldconfig [of w gpuFiles s2] cli \<open>r = Inl err\<close> lst Inr s2
      show ?thesis by (auto simp: Paths_body_def)
    qed
  qed
qed

lemma GetGpuPath_body_helper_first:
  "\<exists>tr. trace (snd (GetGpuPath_body w abspath gpu s))
          = trace s @ EvLookPath ''nvidia-container-cli'' # tr"
proof -
  obtain r s1 where cli: "gpuutils_gpuContainerCli w s = (r, s1)"
    by (cases "gpuutils_gpuContainerCli w s")
  from trace_gpuutils_gpuContainerCli [of w s] cli obtain tr1
    where s1: "trace s1 = trace s @ EvLookPath ''nvidia-container-cli'' # tr1" by auto
  show ?thesis
  proof (cases r)
    case (Inr strArray)
    from trace_GetGpuPath_ldconfig [of w strArray s1] cli Inr s1 show ?thesis
      by (auto simp: GetGpuPath_body_def)
  next
    case (Inl err)
    obtain r2 s2 where lst: "gpuLiblist w abspath (File gpu) s1 = (r2, s2)"
      by (cases "gpuLiblist w abspath (File gpu) s1")
    from trace_gpuLiblist [of w abspath "File gpu" s1] lst s1 obtain tr2
      where s2: "trace s2 = trace s @ EvLookPath ''nvidia-container-cli'' # tr2" by auto
    show ?thesis
    proof (cases r2)
      case (Inl err2)
      with cli \<open>r = Inl err\<close> lst s2 show ?thesis by (simp add: GetGpuPath_body_def)
    next
      case (Inr strArray)
      from trace_GetGpuPath_ldconfig [of w strArray s2] cli \<open>r = Inl err\<close> lst Inr s2
      show ?thesis by (auto simp: GetGpuPath_body_def)
    qed
  qed
qed

lemma Paths_body_helper_ok:
  assumes "fst (gpuContainerCli w s) = Inr gpuFiles"
  shows "Paths_body w gpuDir gpu s = Paths_ldconfig w gpuFiles (snd (gpuContainerCli w s)) \<and>
         (\<exists>tr. trace (snd (Paths_body w gpuDir gpu s)) = trace s @ tr \<and>
               (\<forall>name. EvOpen name \<notin> set tr))"
proof -
  obtain s1 where cli: "gpuContainerCli w s = (Inr gpuFiles, s1)"
    using assms by (cases "gpuContainerCli w s") simp
  then have eq: "Paths_body w gpuDir gpu s = Paths_ldconfig w gpuFiles s1"
    by (simp add: Paths_body_def)
  from trace_gpuContainerCli [of w s] cli obtain tr1
    where "trace s1 = trace s @ EvLookPath ''nvidia-container-cli'' # tr1"
      and "\<forall>name. EvOpen name \<notin> set tr1" by auto
  moreover from trace_Paths_ldconfig [of w gpuFiles s1] obtain tr2
    where "trace (snd (Paths_ldconfig w gpuFiles s1)) = trace s1 @ tr2"
      and "\<forall>name. EvOpen name \<notin> set tr2" by auto
  ultimately have "trace (snd (Paths_body w gpuDir gpu s))
        = trace s @ (EvLookPath ''nvidia-container-cli'' # tr1 @ tr2) \<and>
      (\<forall>name. EvOpen name \<notin> set (EvLookPath ''nvidia-container-cli'' # tr1 @ tr2))"
    by (simp add: eq)
  then show ?thesis using eq cli by (auto simp del: append_Cons set_simps set_append)
qed

lemma GetGpuPath_body_helper_ok:
  assumes "fst (gpuutils_gpuContainerCli w s) = Inr strArray"
  shows "GetGpuPath_body w abspath gpu s
           = GetGpuPath_ldconfig w strArray (snd (gpuutils_gpuContainerCli w s)) \<and>
         (\<exists>tr. trace (snd (GetGpuPath_body w abspath gpu s)) = trace s @ tr \<and>
               (\<forall>name. EvOpen name \<notin> set tr))"
proof -
  obtain s1 where cli: "gpuutils_gpuContainerCli w s = (Inr strArray, s1)"
    using assms by (cases "gpuutils_gpuContainerCli w s") simp
  then have eq: "GetGpuPath_body w abspath gpu s = GetGpuPath_ldconfig w strArray s1"
    by (simp add: GetGpuPath_body_def)
  from trace_gpuutils_gpuContainerCli [of w s] cli obtain tr1
    where "trace s1 = trace s @ EvLookPath ''nvidia-container-cli'' # tr1"
      and "\<forall>name. EvOpen name \<notin> set tr1" by auto
  moreover from trace_GetGpuPath_ldconfig [of w strArray s1] obtain tr2
    where "trace (snd (GetGpuPath_ldconfig w strArray s1)) = trace s1 @ tr2"
      and "\<forall>name. EvOpen name \<notin> set tr2" by auto
  ultimately have "trace (snd (GetGpuPath_body w abspath gpu s))
        = trace s @ (EvLookPath ''nvidia-container-cli'' # tr1 @ tr2) \<and>
      (\<forall>name. EvOpen name \<notin> set (EvLookPath ''nvidia-container-cli'' # tr1 @ tr2))"
    by (simp add: eq)
  then show ?thesis using eq cli by (auto simp del: append_Cons set_simps set_append)
qed

lemma Paths_body_fallback:
  assumes "fst (gpuContainerCli w s) = Inl err"
  shows "(readFile w (filepathJoin w gpuDir (File gpu)) = Some text \<longrightarrow>
           Paths_body w gpuDir gpu s
             = Paths_ldconfig w
                 (filter (\<lambda>line. line \<noteq> [] \<and> hd line \<noteq> CHR ''#'') (map TrimSpace (ScanLines text)))
                 ((snd (gpuContainerCli w s))
                    \<lparr>trace := trace (snd (gpuContainerCli w s))
                                @ [EvOpen (filepathJoin w gpuDir (File gpu))]\<rparr>)) \<and>
         (readFile w (filepathJoin w gpuDir (File gpu)) = None \<longrightarrow>
           (\<exists>e. fst (Paths_body w gpuDir gpu s) = ([], [], Some e)))"
proof -
  obtain s1 where cli: "gpuContainerCli w s = (Inl err, s1)"
    using assms by (cases "gpuContainerCli w s") simp
  then show ?thesis
    by (simp add: Paths_body_def gpuliblist_def os_Open_def Let_def scanLiblist_filter)
qed

lemma GetGpuPath_body_fallback:
  assumes "fst (gpuutils_gpuContainerCli w s) = Inl err"
  shows "(readFile w (abspath @ ''/'' @ File gpu) = Some text \<longrightarrow>
           GetGpuPath_body w abspath gpu s
             = GetGpuPath_ldconfig w
                 (filter (\<lambda>line. line \<noteq> [] \<and> hd line \<noteq> CHR ''#'') (map TrimSpace (ScanLines text)))
                 ((snd (gpuutils_gpuContainerCli w s))
                    \<lparr>trace := trace (snd (gpuutils_gpuContainerCli w s))
                                @ [EvOpen (abspath @ ''/'' @ File gpu)]\<rparr>)) \<and>
         (readFile w (abspath @ ''/'' @ File gpu) = None \<longrightarrow>
           (\<exists>e. fst (GetGpuPath_body w abspath gpu s) = ([], [], Some e)))"
proof -
  obtain s1 where cli: "gpuutils_gpuContainerCli w s = (Inl err, s1)"
    using assms by (cases "gpuutils_gpuContainerCli w s") simp
  then show ?thesis
    by (simp add: GetGpuPath_body_def gpuLiblist_def os_Open_def gpuutils_scanLiblist_filter)
qed

lemma grows_prefix:
  "grows L B l l' \<Longrightarrow> prefix (libraries l) (libraries l') \<and> prefix (binaries l) (binaries l')"
  unfolding grows_def by auto

subsection \<open>The scenario of a versioned library\<close>

text \<open>
  Claim C7. With the cache mapping \<open>{/usr/lib/libfoo.so.1: libfoo.so.1}\<close>, the
  candidate list \<open>[libfoo.so]\<close> and a library file whose machine is the reference
  machine, the resolved library list is exactly \<open>[/usr/lib/libfoo.so.1]\<close>, whatever
  the state and the locals' counter.
\<close>

theorem C7_libfoo_scenario:
  assumes "mapRange_ok w"
    and "elfMachine w ''/usr/lib/libfoo.so.1'' = Some machine"
  shows "libraries (fst (rangeGpuFiles w machine [(''/usr/lib/libfoo.so.1'', ''libfoo.so.1'')]
                           [''libfoo.so''] i (locals0, s)))
         = [''/usr/lib/libfoo.so.1'']"
proof -
  have "mset (mapRange w i [(''/usr/lib/libfoo.so.1'', ''libfoo.so.1'')])
        = {#(''/usr/lib/libfoo.so.1'', ''libfoo.so.1'')#}"
    using assms(1) by (simp add: mapRange_ok_def)
  then have "mapRange w i [(''/usr/lib/libfoo.so.1'', ''libfoo.so.1'')]
        = [(''/usr/lib/libfoo.so.1'', ''libfoo.so.1'')]"
    by (rule mset_single_list)
  then show ?thesis
    using assms(2) by (simp add: locals0_def HasPrefix_def elf_Open_def)
qed

theorem C7_libfoo_scenario_witness:
  "mapRange_ok hostWorld \<and> elfMachine hostWorld ''/usr/lib/libfoo.so.1'' = Some 62 \<and>
   libraries (fst (rangeGpuFiles hostWorld 62 [(''/usr/lib/libfoo.so.1'', ''libfoo.so.1'')]
                           [''libfoo.so''] 0 (locals0, state0)))
         = [''/usr/lib/libfoo.so.1'']"
proof -
  have elf: "elfMachine hostWorld ''/usr/lib/libfoo.so.1'' = Some 62"
    by (simp add: hostWorld_def)
  from C7_libfoo_scenario [OF mapRange_ok_hostWorld elf] mapRange_ok_hostWorld elf
  show ?thesis by simp
qed

subsection \<open>The override of the search path\<close>

text \<open>
  Claim C6, as stated, fails in two places. A process without \<open>PATH\<close> in its
  environment ends the call with \<open>PATH\<close> set to the empty string, which is not the
  environment it had. And an override that contains a NUL byte is refused by
  \<open>os.Setenv\<close>: the variable keeps its value and the searches of the call are made
  in the old directories, here \<open>/usr/bin\<close>.
\<close>

theorem C6_override_counterexample:
  "environ (state0\<lparr>environ := Map.empty\<rparr>) ''PATH'' = None \<and>
   environ (snd (Paths hostWorld ''/etc'' ''/opt/bin'' nvCfg (state0\<lparr>environ := Map.empty\<rparr>)))
     ''PATH'' = Some [] \<and>
   environ (snd (GetGpuPath hostWorld ''/etc'' ''/opt/bin'' nvCfg (state0\<lparr>environ := Map.empty\<rparr>)))
     ''PATH'' = Some [] \<and>
   environ (os_Setenv ''PATH'' (''/opt/bin'' @ [CHR 0x00]) state0) ''PATH'' = Some ''/usr/bin'' \<and>
   fst (Paths usrBinWorld ''/etc'' (''/opt/bin'' @ [CHR 0x00]) nvCfg state0)
     = ([''/usr/lib/libfoo.so.1''], [''/usr/bin/nvidia-smi''], None)"
  by (simp add: eval_defs usrBinWorld_def hostWorld_def)

text \<open>
  Claim C6, amended. With a non-empty override that contains no NUL byte (and a
  \<open>PATH\<close> whose value, as every value of an environment, contains none), \<open>Paths\<close>
  and \<open>GetGpuPath\<close> read \<open>PATH\<close>, set it to the override, run the whole resolution
  with that value (the result is the one of a call without override in an environment
  whose \<open>PATH\<close> is the override) and end by setting \<open>PATH\<close> to the value read at
  the start. This holds for every world, so on every return path, the ones with an
  error included. Afterwards \<open>os.Getenv\<close> gives for \<open>PATH\<close> what it gave before and
  every other variable is as before; when \<open>PATH\<close> was set before the call, the
  environment afterwards is the environment before.
\<close>

theorem C6_override_scoped:
  assumes "envPath \<noteq> []" and "CHR 0x00 \<notin> set envPath"
    and "CHR 0x00 \<notin> set (getenv (environ s) ''PATH'')"
  shows "fst (Paths w gpuDir envPath gpu s)
           = fst (Paths w gpuDir [] gpu (s\<lparr>environ := (environ s)(''PATH'' \<mapsto> envPath)\<rparr>)) \<and>
         (\<exists>tr. trace (snd (Paths w gpuDir envPath gpu s))
                 = trace s @ [EvGetenv ''PATH'', EvSetenv ''PATH'' envPath] @ tr
                     @ [EvSetenv ''PATH'' (getenv (environ s) ''PATH'')] \<and>
               (\<forall>e \<in> set tr. \<not> isEnvOp e)) \<and>
         getenv (environ (snd (Paths w gpuDir envPath gpu s))) ''PATH''
           = getenv (environ s) ''PATH'' \<and>
         (\<forall>key. key \<noteq> ''PATH'' \<longrightarrow>
            environ (snd (Paths w gpuDir envPath gpu s)) key = environ s key) \<and>
         (''PATH'' \<in> dom (environ s) \<longrightarrow>
            environ (snd (Paths w gpuDir envPath gpu s)) = environ s) \<and>
         fst (GetGpuPath w gpuDir envPath gpu s)
           = fst (GetGpuPath w gpuDir [] gpu (s\<lparr>environ := (environ s)(''PATH'' \<mapsto> envPath)\<rparr>)) \<and>
         (\<exists>tr. trace (snd (GetGpuPath w gpuDir envPath gpu s))
                 = trace s @ [EvGetenv ''PATH'', EvSetenv ''PATH'' envPath] @ tr
                     @ [EvSetenv ''PATH'' (getenv (environ s) ''PATH'')] \<and>
               (\<forall>e \<in> set tr. \<not> isEnvOp e)) \<and>
         getenv (environ (snd (GetGpuPath w gpuDir envPath gpu s))) ''PATH''
           = getenv (environ s) ''PATH'' \<and>
         (\<forall>key. key \<noteq> ''PATH'' \<longrightarrow>
            environ (snd (GetGpuPath w gpuDir envPath gpu s)) key = environ s key) \<and>
         (''PATH'' \<in> dom (environ s) \<longrightarrow>
            environ (snd (GetGpuPath w gpuDir envPath gpu s)) = environ s)"
proof -
  let ?old = "(environ s)(''PATH'' \<mapsto> getenv (environ s) ''PATH'')"
  have old: "getenv ?old ''PATH'' = getenv (environ s) ''PATH''"
    "\<forall>key. key \<noteq> ''PATH'' \<longrightarrow> ?old key = environ s key"
    "''PATH'' \<in> dom (environ s) \<longrightarrow> ?old = environ s"
    by (auto simp: getenv_def fun_eq_iff)
  have "runs (\<lambda>e. \<not> isEnvOp e) (Paths_body w gpuDir gpu) ((environ s)(''PATH'' \<mapsto> envPath))"
    by (rule runs_Paths_body) (simp_all add: isEnvOp_def)
  from override_scoped [OF assms(1) this assms(2,3)]
  have 1: "fst (Paths w gpuDir envPath gpu s)
           = fst (Paths w gpuDir [] gpu (s\<lparr>environ := (environ s)(''PATH'' \<mapsto> envPath)\<rparr>)) \<and>
         (\<exists>tr. trace (snd (Paths w gpuDir envPath gpu s))
                 = trace s @ [EvGetenv ''PATH'', EvSetenv ''PATH'' envPath] @ tr
                     @ [EvSetenv ''PATH'' (getenv (environ s) ''PATH'')] \<and>
               (\<forall>e \<in> set tr. \<not> isEnvOp e)) \<and>
         environ (snd (Paths w gpuDir envPath gpu s)) = ?old"
    using assms(1) by (auto simp: Paths_def)
  have "runs (\<lambda>e. \<not> isEnvOp e) (GetGpuPath_body w gpuDir gpu) ((environ s)(''PATH'' \<mapsto> envPath))"
    by (rule runs_GetGpuPath_body) (simp_all add: isEnvOp_def)
  from override_scoped [OF assms(1) this assms(2,3)]
  have 2: "fst (GetGpuPath w gpuDir envPath gpu s)
           = fst (GetGpuPath w gpuDir [] gpu (s\<lparr>environ := (environ s)(''PATH'' \<mapsto> envPath)\<rparr>)) \<and>
         (\<exists>tr. trace (snd (GetGpuPath w gpuDir envPath gpu s))
                 = trace s @ [EvGetenv ''PATH'', EvSetenv ''PATH'' envPath] @ tr
                     @ [EvSetenv ''PATH'' (getenv (environ s) ''PATH'')] \<and>
               (\<forall>e \<in> set tr. \<not> isEnvOp e)) \<and>
         environ (snd (GetGpuPath w gpuDir envPath gpu s)) = ?old"
    using assms(1) by (auto simp: GetGpuPath_def)
  from 1 2 old show ?thesis by presburger
qed

theorem C6_override_scoped_witness:
  "''/opt/bin'' \<noteq> [] \<and> CHR 0x00 \<notin> set ''/opt/bin'' \<and>
   CHR 0x00 \<notin> set (getenv (environ state0) ''PATH'') \<and> ''PATH'' \<in> dom (environ state0) \<and>
   fst (Paths noLdconfigWorld ''/etc'' ''/opt/bin'' nvCfg state0)
     = ([], [], Some (Errorf ''could not execute ldconfig'' (ErrExec ''ldconfig''))) \<and>
   environ (snd (Paths noLdconfigWorld ''/etc'' ''/opt/bin'' nvCfg state0)) = environ state0 \<and>
   getenv (environ (snd (Paths noLdconfigWorld ''/etc'' ''/opt/bin'' nvCfg state0))) ''PATH''
     = ''/usr/bin'' \<and>
   fst (GetGpuPath hostWorld ''/etc'' ''/opt/bin'' nvCfg state0)
     = ([''/usr/lib/libfoo.so.1''], [''/opt/bin/nvidia-smi''], None) \<and>
   environ (snd (GetGpuPath hostWorld ''/etc'' ''/opt/bin'' nvCfg state0)) = environ state0 \<and>
   getenv (environ (snd (GetGpuPath hostWorld ''/etc'' ''/opt/bin'' nvCfg state0))) ''PATH''
     = ''/usr/bin''"
proof -
  have ne: "''/opt/bin'' \<noteq> []" and nul: "CHR 0x00 \<notin> set ''/opt/bin''" by simp_all
  have p: "getenv (environ state0) ''PATH'' = ''/usr/bin''"
    and d: "''PATH'' \<in> dom (environ state0)"
    by (simp_all add: state0_def getenv_def)
  have nul0: "CHR 0x00 \<notin> set (getenv (environ state0) ''PATH'')"
    unfolding p by simp
  have 1: "fst (Paths noLdconfigWorld ''/etc'' ''/opt/bin'' nvCfg state0)
     = ([], [], Some (Errorf ''could not execute ldconfig'' (ErrExec ''ldconfig'')))"
    by (simp add: eval_defs noLdconfigWorld_def hostWorld_def)
  have 2: "fst (GetGpuPath hostWorld ''/etc'' ''/opt/bin'' nvCfg state0)
     = ([''/usr/lib/libfoo.so.1''], [''/opt/bin/nvidia-smi''], None)"
    by (simp add: eval_defs hostWorld_def)
  note a = C6_override_scoped [OF ne nul nul0, of noLdconfigWorld "''/etc''" nvCfg]
  note b = C6_override_scoped [OF ne nul nul0, of hostWorld "''/etc''" nvCfg]
  from a d have a1: "environ (snd (Paths noLdconfigWorld ''/etc'' ''/opt/bin'' nvCfg state0))
      = environ state0"
    and a2: "getenv (environ (snd (Paths noLdconfigWorld ''/etc'' ''/opt/bin'' nvCfg state0)))
      ''PATH'' = getenv (environ state0) ''PATH''"
    by blast+
  from b d have b1: "environ (snd (GetGpuPath hostWorld ''/etc'' ''/opt/bin'' nvCfg state0))
      = environ state0"
    and b2: "getenv (environ (snd (GetGpuPath hostWorld ''/etc'' ''/opt/bin'' nvCfg state0)))
      ''PATH'' = getenv (environ state0) ''PATH''"
    by blast+
  from ne nul nul0 d 1 2 a1 a2 b1 b2 show ?thesis unfolding p by blast
qed

text \<open>
  Claim C10, as stated, fails: with the empty override the call does read \<open>PATH\<close>,
  through the searches of \<open>exec.LookPath\<close>. On the same host the binary is found
  when \<open>PATH\<close> is \<open>/opt/bin\<close> and is not found when it is \<open>/usr/bin\<close>.
\<close>

theorem C10_PATH_is_read_counterexample:
  "fst (Paths hostWorld ''/etc'' [] nvCfg state0) = ([''/usr/lib/libfoo.so.1''], [], None) \<and>
   fst (Paths hostWorld ''/etc'' [] nvCfg (state0\<lparr>environ := [''PATH'' \<mapsto> ''/opt/bin'']\<rparr>))
     = ([''/usr/lib/libfoo.so.1''], [''/opt/bin/nvidia-smi''], None) \<and>
   fst (GetGpuPath hostWorld ''/etc'' [] nvCfg state0) = ([''/usr/lib/libfoo.so.1''], [], None) \<and>
   fst (GetGpuPath hostWorld ''/etc'' [] nvCfg (state0\<lparr>environ := [''PATH'' \<mapsto> ''/opt/bin'']\<rparr>))
     = ([''/usr/lib/libfoo.so.1''], [''/opt/bin/nvidia-smi''], None)"
  by (simp add: eval_defs hostWorld_def)

text \<open>
  Claim C10, amended. With the empty override neither function calls \<open>os.Getenv\<close> or
  \<open>os.Setenv\<close>: the events of the call contain no such call, and the environment at
  the end is the one at the start, so \<open>PATH\<close> is not written. The sequence of saving,
  overriding and restoring is not performed for the empty override.
\<close>

theorem C10_empty_override_leaves_PATH_alone:
  assumes "envPath = []"
  shows "(\<exists>tr. trace (snd (Paths w gpuDir envPath gpu s)) = trace s @ tr \<and>
               (\<forall>e \<in> set tr. \<not> isEnvOp e)) \<and>
         environ (snd (Paths w gpuDir envPath gpu s)) = environ s \<and>
         (\<exists>tr. trace (snd (GetGpuPath w gpuDir envPath gpu s)) = trace s @ tr \<and>
               (\<forall>e \<in> set tr. \<not> isEnvOp e)) \<and>
         environ (snd (GetGpuPath w gpuDir envPath gpu s)) = environ s"
proof -
  have "runs (\<lambda>e. \<not> isEnvOp e) (Paths_body w gpuDir gpu) (environ s)"
    by (rule runs_Paths_body) (simp_all add: isEnvOp_def)
  then obtain r tr where 1: "\<forall>e \<in> set tr. \<not> isEnvOp e"
    "Paths_body w gpuDir gpu s = (r, s\<lparr>trace := trace s @ tr\<rparr>)"
    by (rule runsD) simp
  have "runs (\<lambda>e. \<not> isEnvOp e) (GetGpuPath_body w gpuDir gpu) (environ s)"
    by (rule runs_GetGpuPath_body) (simp_all add: isEnvOp_def)
  then obtain r' tr' where 2: "\<forall>e \<in> set tr'. \<not> isEnvOp e"
    "GetGpuPath_body w gpuDir gpu s = (r', s\<lparr>trace := trace s @ tr'\<rparr>)"
    by (rule runsD) simp
  from 1 2 assms show ?thesis by (simp add: Paths_def GetGpuPath_def)
qed

theorem C10_empty_override_leaves_PATH_alone_witness:
  "([]::string) = [] \<and> trace (snd (Paths hostWorld ''/etc'' [] nvCfg state0)) =
     [EvLookPath ''nvidia-container-cli'', EvOpen ''/etc/nvliblist.conf'',
        EvCommand ''ldconfig'' [''-p''], EvElfOpen ''/proc/self/exe'',
        EvLookPath ''nvidia-smi'', EvElfOpen ''/usr/lib/libfoo.so.1''] \<and>
     environ (snd (Paths hostWorld ''/etc'' [] nvCfg state0)) = environ state0"
  using C10_empty_override_leaves_PATH_alone [of "[]" hostWorld "''/etc''" nvCfg state0]
  by (simp add: eval_defs hostWorld_def)

subsection \<open>No duplicates\<close>

text \<open>
  Claim C1, as stated, also says that two cache entries with different names for the
  same path are both included. The cache is a map keyed by path: of two lines of the
  listing that name the same path the later one replaces the earlier, and the path is
  included once.
\<close>

theorem C1_same_path_counterexample:
  "buildLdCache [(''libfoo.so.1'', ''/usr/lib/libfoo.so.1''),
                 (''libfoo.so'', ''/usr/lib/libfoo.so.1'')] []
     = [(''/usr/lib/libfoo.so.1'', ''libfoo.so'')] \<and>
   fst (Paths aliasWorld ''/etc'' [] nvCfg state0) = ([''/usr/lib/libfoo.so.1''], [], None) \<and>
   fst (GetGpuPath aliasWorld ''/etc'' [] nvCfg state0) = ([''/usr/lib/libfoo.so.1''], [], None)"
  by (simp add: eval_defs aliasWorld_def hostWorld_def)

text \<open>
  Claim C1, amended. The cache built from the listing has every path as a key once,
  under the name of the last line of the listing that gives that path. For every
  candidate list, cache mapping and search path, the names under which the cache
  reports the resolved libraries are pairwise different (\<open>map_of ldCache\<close> gives the
  name of a path), hence so are the library paths, and the binary paths are pairwise
  different. Both lists of \<open>Paths\<close> and of \<open>GetGpuPath\<close> are free of duplicates.
\<close>

theorem C1_no_duplicates:
  assumes "mapRange_ok w" and "distinct (map fst ldCache)"
  shows "distinct (map fst (buildLdCache matches [])) \<and>
         distinct (map (map_of ldCache)
            (libraries (fst (rangeGpuFiles w machine ldCache gpuFiles i (locals0, s))))) \<and>
         (\<forall>libPath \<in> set (libraries (fst (rangeGpuFiles w machine ldCache gpuFiles i (locals0, s)))).
            map_of ldCache libPath \<noteq> None) \<and>
         distinct (libraries (fst (rangeGpuFiles w machine ldCache gpuFiles i (locals0, s)))) \<and>
         distinct (binaries (fst (rangeGpuFiles w machine ldCache gpuFiles i (locals0, s)))) \<and>
         distinct (fst (fst (Paths w gpuDir envPath gpu s))) \<and>
         distinct (fst (snd (fst (Paths w gpuDir envPath gpu s)))) \<and>
         distinct (fst (fst (GetGpuPath w gpuDir envPath gpu s))) \<and>
         distinct (fst (snd (fst (GetGpuPath w gpuDir envPath gpu s)))) \<and>
         ((\<forall>(name', path') \<in> set later. TrimSpace path' \<noteq> TrimSpace path) \<longrightarrow>
            map_of (buildLdCache (earlier @ (name, path) # later) []) (TrimSpace path)
              = Some (TrimSpace name))"
proof -
  let ?l = "fst (rangeGpuFiles w machine ldCache gpuFiles i (locals0, s))"
  have 0: "distinct (map fst (buildLdCache matches []))"
    by (rule distinct_buildLdCache) simp
  have 4: "(\<forall>(name', path') \<in> set later. TrimSpace path' \<noteq> TrimSpace path) \<longrightarrow>
            map_of (buildLdCache (earlier @ (name, path) # later) []) (TrimSpace path)
              = Some (TrimSpace name)"
    using map_of_buildLdCache_last by blast
  note d = resolved_distinct [OF assms, of machine gpuFiles i s]
  have "\<forall>p \<in> set (libraries ?l). \<exists>n. (p, n) \<in> set ldCache \<and> elfMachine w p = Some machine \<and>
                  (\<exists>c \<in> set gpuFiles. Contains c ''.so'' \<and> HasPrefix n c)"
    using grows_locals0(1) [OF rangeGpuFiles_cache [OF assms(1), of ldCache machine gpuFiles s locals0 i]]
    by simp
  then have 1: "\<forall>p \<in> set (libraries ?l). map_of ldCache p \<noteq> None"
    using assms(2) by fastforce
  let ?Q = "\<lambda>r :: result. distinct (fst r) \<and> distinct (fst (snd r))"
  have 2: "?Q (fst (Paths w gpuDir envPath gpu s))"
    by (rule Paths_result) (simp_all add: resolved_distinct [OF assms(1)])
  have 3: "?Q (fst (GetGpuPath w gpuDir envPath gpu s))"
    by (rule GetGpuPath_result) (simp_all add: resolved_distinct [OF assms(1)])
  from 0 d 1 2 3 4 show ?thesis by simp
qed

theorem C1_no_duplicates_witness:
  "mapRange_ok multiarchWorld \<and>
   distinct (map fst [(''/usr/lib32/libfoo.so.1'', ''libfoo.so.1''),
                      (''/usr/lib64/libfoo.so.1'', ''libfoo.so.1''),
                      (''/usr/lib64/libfoo.so.2'', ''libfoo.so.2'')]) \<and>
   libraries (fst (rangeGpuFiles multiarchWorld 62
      [(''/usr/lib32/libfoo.so.1'', ''libfoo.so.1''),
       (''/usr/lib64/libfoo.so.1'', ''libfoo.so.1''),
       (''/usr/lib64/libfoo.so.2'', ''libfoo.so.2'')]
      [''libfoo.so.1'', ''libfoo.so'', ''nvidia-smi'', ''nvidia-smi'']
      0 (locals0, state0\<lparr>environ := [''PATH'' \<mapsto> ''/opt/bin'']\<rparr>)))
     = [''/usr/lib64/libfoo.so.1''] \<and>
   binaries (fst (rangeGpuFiles multiarchWorld 62
      [(''/usr/lib32/libfoo.so.1'', ''libfoo.so.1''),
       (''/usr/lib64/libfoo.so.1'', ''libfoo.so.1''),
       (''/usr/lib64/libfoo.so.2'', ''libfoo.so.2'')]
      [''libfoo.so.1'', ''libfoo.so'', ''nvidia-smi'', ''nvidia-smi'']
      0 (locals0, state0\<lparr>environ := [''PATH'' \<mapsto> ''/opt/bin'']\<rparr>)))
     = [''/opt/bin/nvidia-smi''] \<and>
   distinct (map (map_of [(''/usr/lib32/libfoo.so.1'', ''libfoo.so.1''),
       (''/usr/lib64/libfoo.so.1'', ''libfoo.so.1''),
       (''/usr/lib64/libfoo.so.2'', ''libfoo.so.2'')])
     (libraries (fst (rangeGpuFiles multiarchWorld 62
      [(''/usr/lib32/libfoo.so.1'', ''libfoo.so.1''),
       (''/usr/lib64/libfoo.so.1'', ''libfoo.so.1''),
       (''/usr/lib64/libfoo.so.2'', ''libfoo.so.2'')]
      [''libfoo.so.1'', ''libfoo.so'', ''nvidia-smi'', ''nvidia-smi'']
      0 (locals0, state0\<lparr>environ := [''PATH'' \<mapsto> ''/opt/bin'']\<rparr>))))) \<and>
   TrimSpace ''/usr/lib/libbar.so.1'' \<noteq> TrimSpace ''/usr/lib/libfoo.so.1'' \<and>
   map_of (buildLdCache ([(''libfoo.so.1'', ''/usr/lib/libfoo.so.1'')]
             @ (''libfoo.so'', ''/usr/lib/libfoo.so.1'')
             # [(''libbar.so.1'', ''/usr/lib/libbar.so.1'')]) [])
     (TrimSpace ''/usr/lib/libfoo.so.1'') = Some (TrimSpace ''libfoo.so'')"
proof -
  have ok: "mapRange_ok multiarchWorld"
    by (simp add: mapRange_ok_def multiarchWorld_def hostWorld_def)
  have d: "distinct (map fst [(''/usr/lib32/libfoo.so.1'', ''libfoo.so.1''),
                      (''/usr/lib64/libfoo.so.1'', ''libfoo.so.1''),
                      (''/usr/lib64/libfoo.so.2'', ''libfoo.so.2'')])"
    by simp
  have e: "rangeGpuFiles multiarchWorld 62
      [(''/usr/lib32/libfoo.so.1'', ''libfoo.so.1''),
       (''/usr/lib64/libfoo.so.1'', ''libfoo.so.1''),
       (''/usr/lib64/libfoo.so.2'', ''libfoo.so.2'')]
      [''libfoo.so.1'', ''libfoo.so'', ''nvidia-smi'', ''nvidia-smi'']
      0 (locals0, state0\<lparr>environ := [''PATH'' \<mapsto> ''/opt/bin'']\<rparr>)
     = (\<lparr>bins = {''/opt/bin/nvidia-smi''}, libs = {''libfoo.so.1''},
         libraries = [''/usr/lib64/libfoo.so.1''], binaries = [''/opt/bin/nvidia-smi'']\<rparr>,
        \<lparr>environ = [''PATH'' \<mapsto> ''/opt/bin''],
         trace = [EvElfOpen ''/usr/lib32/libfoo.so.1'', EvElfOpen ''/usr/lib64/libfoo.so.1'',
                  EvElfOpen ''/usr/lib64/libfoo.so.2'', EvLookPath ''nvidia-smi'', EvLookPath ''nvidia-smi'']\<rparr>)"
    by (simp add: eval_defs multiarchWorld_def hostWorld_def)
  have h: "\<forall>(name', path') \<in> set [(''libbar.so.1'', ''/usr/lib/libbar.so.1'')].
      TrimSpace path' \<noteq> TrimSpace ''/usr/lib/libfoo.so.1''"
    by (simp add: eval_defs)
  note t = C1_no_duplicates [OF ok d, of "[]" 62
      "[''libfoo.so.1'', ''libfoo.so'', ''nvidia-smi'', ''nvidia-smi'']" 0
      "state0\<lparr>environ := [''PATH'' \<mapsto> ''/opt/bin'']\<rparr>" "[]" "[]" nvCfg
      "[(''libbar.so.1'', ''/usr/lib/libbar.so.1'')]" "''/usr/lib/libfoo.so.1''"
      "[(''libfoo.so.1'', ''/usr/lib/libfoo.so.1'')]" "''libfoo.so''", unfolded e]
  from t h have m: "map_of (buildLdCache ([(''libfoo.so.1'', ''/usr/lib/libfoo.so.1'')]
             @ (''libfoo.so'', ''/usr/lib/libfoo.so.1'')
             # [(''libbar.so.1'', ''/usr/lib/libbar.so.1'')]) [])
     (TrimSpace ''/usr/lib/libfoo.so.1'') = Some (TrimSpace ''libfoo.so'')"
    by blast
  from t ok d have "distinct (map (map_of [(''/usr/lib32/libfoo.so.1'', ''libfoo.so.1''),
       (''/usr/lib64/libfoo.so.1'', ''libfoo.so.1''),
       (''/usr/lib64/libfoo.so.2'', ''libfoo.so.2'')])
     (libraries (\<lparr>bins = {''/opt/bin/nvidia-smi''}, libs = {''libfoo.so.1''},
         libraries = [''/usr/lib64/libfoo.so.1''], binaries = [''/opt/bin/nvidia-smi'']\<rparr>)))"
    by simp
  moreover have "TrimSpace ''/usr/lib/libbar.so.1'' \<noteq> TrimSpace ''/usr/lib/libfoo.so.1''"
    using h by simp
  ultimately show ?thesis using ok d m unfolding e by simp
qed


subsection \<open>Machine and name of a resolved library\<close>

text \<open>
  Claim C3. Every path in the resolved library list is a file whose machine is the
  reference machine: in the loop, the machine passed to it; in \<open>Paths\<close> and in
  \<open>GetGpuPath\<close>, the machine of \<open>/proc/self/exe\<close>. A file of another machine is
  therefore never in the list, whatever its name.
\<close>

theorem C3_only_matching_machine:
  "(\<forall>libPath \<in> set (libraries (fst (rangeGpuFiles w machine ldCache gpuFiles i (locals0, s)))).
      elfMachine w libPath = Some machine) \<and>
   (\<forall>libPath \<in> set (fst (fst (Paths w gpuDir envPath gpu s))).
      elfMachine w libPath \<noteq> None \<and> elfMachine w libPath = elfMachine w ''/proc/self/exe'') \<and>
   (\<forall>libPath \<in> set (fst (fst (GetGpuPath w gpuDir envPath gpu s))).
      elfMachine w libPath \<noteq> None \<and> elfMachine w libPath = elfMachine w ''/proc/self/exe'')"
proof -
  have 1: "\<forall>libPath \<in> set (libraries (fst (rangeGpuFiles w m ldCache cs j (locals0, t)))).
      elfMachine w libPath = Some m" for m ldCache cs j t
    using grows_locals0(1) [OF conjunct1 [OF rangeGpuFiles_grows [of w ldCache cs m t locals0 j]]]
    by auto
  let ?Q = "\<lambda>r :: result. \<forall>libPath \<in> set (fst r).
      elfMachine w libPath \<noteq> None \<and> elfMachine w libPath = elfMachine w ''/proc/self/exe''"
  have 2: "?Q (fst (Paths w gpuDir envPath gpu s))"
    by (rule Paths_result) (simp_all add: 1)
  have 3: "?Q (fst (GetGpuPath w gpuDir envPath gpu s))"
    by (rule GetGpuPath_result) (simp_all add: 1)
  from 1 2 3 show ?thesis by blast
qed

theorem C3_only_matching_machine_witness:
  "fst (Paths multiarchWorld ''/etc'' [] nvCfg state0) = ([''/usr/lib64/libfoo.so.1''], [], None) \<and>
   ''/usr/lib64/libfoo.so.1'' \<in> set (fst (fst (Paths multiarchWorld ''/etc'' [] nvCfg state0))) \<and>
   elfMachine multiarchWorld ''/usr/lib64/libfoo.so.1'' = elfMachine multiarchWorld ''/proc/self/exe'' \<and>
   elfMachine multiarchWorld ''/usr/lib32/libfoo.so.1'' = Some 3 \<and>
   elfMachine multiarchWorld ''/proc/self/exe'' = Some 62 \<and>
   libraries (fst (rangeGpuFiles multiarchWorld 62
      [(''/usr/lib32/libfoo.so.1'', ''libfoo.so.1'')] [''libfoo.so.1''] 0 (locals0, state0))) = []"
proof -
  have e: "fst (Paths multiarchWorld ''/etc'' [] nvCfg state0)
             = ([''/usr/lib64/libfoo.so.1''], [], None)"
    by (simp add: eval_defs multiarchWorld_def hostWorld_def Let_def)
  have f: "libraries (fst (rangeGpuFiles multiarchWorld 62
      [(''/usr/lib32/libfoo.so.1'', ''libfoo.so.1'')] [''libfoo.so.1''] 0 (locals0, state0))) = []"
    by (simp add: eval_defs multiarchWorld_def hostWorld_def)
  note t = C3_only_matching_machine [of multiarchWorld 62
      "[(''/usr/lib32/libfoo.so.1'', ''libfoo.so.1'')]" "[''libfoo.so.1'']" 0 state0
      "''/etc''" "[]" nvCfg, unfolded e f]
  from t show ?thesis unfolding e f by (simp add: multiarchWorld_def hostWorld_def)
qed

text \<open>
  Claim C8. Every path in the resolved library list is in the cache under a name that
  starts with one of the candidates, a candidate that contains \<open>.so\<close>: the name is the
  candidate followed by some suffix, which need not be empty.
\<close>

theorem C8_name_has_candidate_prefix:
  assumes "mapRange_ok w"
  shows "\<forall>libPath \<in> set (libraries (fst (rangeGpuFiles w machine ldCache gpuFiles i (locals0, s)))).
           \<exists>libName gpuFile suffix.
             (libPath, libName) \<in> set ldCache \<and> gpuFile \<in> set gpuFiles \<and>
             Contains gpuFile ''.so'' \<and> HasPrefix libName gpuFile \<and> libName = gpuFile @ suffix"
proof -
  have "\<forall>p \<in> set (libraries (fst (rangeGpuFiles w machine ldCache gpuFiles i (locals0, s)))).
          \<exists>n. (p, n) \<in> set ldCache \<and> elfMachine w p = Some machine \<and>
                  (\<exists>c \<in> set gpuFiles. Contains c ''.so'' \<and> HasPrefix n c)"
    using grows_locals0(1) [OF rangeGpuFiles_cache [OF assms, of ldCache machine gpuFiles s locals0 i]]
    by simp
  then show ?thesis
    unfolding HasPrefix_def prefix_def by blast
qed

theorem C8_name_has_candidate_prefix_witness:
  "mapRange_ok hostWorld \<and>
   libraries (fst (rangeGpuFiles hostWorld 62 [(''/usr/lib/libfoo.so.1'', ''libfoo.so.1'')]
                      [''nvidia-smi'', ''libfoo.so''] 0 (locals0, state0)))
     = [''/usr/lib/libfoo.so.1''] \<and>
   (\<exists>libName gpuFile suffix.
      (''/usr/lib/libfoo.so.1'', libName) \<in> set [(''/usr/lib/libfoo.so.1'', ''libfoo.so.1'')] \<and>
      gpuFile \<in> set [''nvidia-smi'', ''libfoo.so''] \<and> Contains gpuFile ''.so'' \<and>
      HasPrefix libName gpuFile \<and> libName = gpuFile @ suffix) \<and>
   HasPrefix ''libfoo.so.1'' ''libfoo.so'' \<and> ''libfoo.so.1'' \<noteq> ''libfoo.so''"
proof -
  have e: "libraries (fst (rangeGpuFiles hostWorld 62 [(''/usr/lib/libfoo.so.1'', ''libfoo.so.1'')]
                      [''nvidia-smi'', ''libfoo.so''] 0 (locals0, state0)))
     = [''/usr/lib/libfoo.so.1'']"
    by (simp add: eval_defs hostWorld_def)
  note t = C8_name_has_candidate_prefix [OF mapRange_ok_hostWorld, of 62
      "[(''/usr/lib/libfoo.so.1'', ''libfoo.so.1'')]" "[''nvidia-smi'', ''libfoo.so'']" 0 state0,
      unfolded e]
  from t mapRange_ok_hostWorld show ?thesis unfolding e by (simp add: HasPrefix_def)
qed

subsection \<open>A library of another machine\<close>

text \<open>
  Claim C2, as stated, fails: a cache entry whose file has another machine does not mark
  its name as seen. With a 32-bit and a 64-bit \<open>libfoo.so.1\<close> under the same name and
  the 32-bit entry visited first, the 64-bit path is the result.
\<close>

theorem C2_mismatch_counterexample:
  "HasPrefix ''libfoo.so.1'' ''libfoo.so'' \<and>
   elfMachine multiarchWorld ''/usr/lib32/libfoo.so.1'' = Some 3 \<and>
   elfMachine multiarchWorld ''/usr/lib64/libfoo.so.1'' = Some 62 \<and>
   fst (rangeGpuFiles multiarchWorld 62
          [(''/usr/lib32/libfoo.so.1'', ''libfoo.so.1''),
           (''/usr/lib64/libfoo.so.1'', ''libfoo.so.1'')]
          [''libfoo.so''] 0 (locals0, state0))
     = \<lparr>bins = {}, libs = {''libfoo.so.1''},
        libraries = [''/usr/lib64/libfoo.so.1''], binaries = []\<rparr> \<and>
   fst (Paths multiarchWorld ''/etc'' [] nvCfg state0)
     = ([''/usr/lib64/libfoo.so.1''], [], None) \<and>
   fst (GetGpuPath multiarchWorld ''/etc'' [] nvCfg state0)
     = ([''/usr/lib64/libfoo.so.1''], [], None)"
  by (simp add: eval_defs multiarchWorld_def hostWorld_def)

text \<open>
  Claim C2, amended. When a cache entry's name has the candidate as a prefix and is not
  yet seen, and the file opens with a machine other than the reference machine, the
  scan goes on with the locals unchanged: no path is added and the name is not marked
  as seen. The first entry visited afterwards in the same scan that carries the same
  name and whose file has the reference machine is therefore still considered, and its
  path is in the result.
\<close>

theorem C2_mismatch_leaves_name_unseen:
  assumes "HasPrefix libName gpuFile" and "libName \<notin> libs l"
    and "elfMachine w libPath = Some elibMachine" and "elibMachine \<noteq> machine"
  shows "rangeLdCache w machine gpuFile ((libPath, libName) # rest) (l, s)
           = rangeLdCache w machine gpuFile rest (l, s\<lparr>trace := trace s @ [EvElfOpen libPath]\<rparr>) \<and>
         (\<forall>between libPath2 after.
            rest = between @ (libPath2, libName) # after \<and>
            elfMachine w libPath2 = Some machine \<and>
            (\<forall>(p, n) \<in> set between. n = libName \<longrightarrow> elfMachine w p \<noteq> Some machine) \<longrightarrow>
            libPath2 \<in> set (libraries (fst (rangeLdCache w machine gpuFile
                                              ((libPath, libName) # rest) (l, s)))))"
proof -
  let ?s = "s\<lparr>trace := trace s @ [EvElfOpen libPath]\<rparr>"
  have step: "rangeLdCache w machine gpuFile ((libPath, libName) # rest) (l, s)
           = rangeLdCache w machine gpuFile rest (l, ?s)"
    using assms by (simp add: elf_Open_def)
  have "libPath2 \<in> set (libraries (fst (rangeLdCache w machine gpuFile rest (l, ?s))))"
    if "rest = between @ (libPath2, libName) # after"
      and "elfMachine w libPath2 = Some machine"
      and "\<forall>(p, n) \<in> set between. n = libName \<longrightarrow> elfMachine w p \<noteq> Some machine"
    for between libPath2 after
    unfolding that(1)
    by (rule rangeLdCache_first_compatible [OF assms(1) that(2) assms(2) that(3)])
  with step show ?thesis by auto
qed

theorem C2_mismatch_leaves_name_unseen_witness:
  "HasPrefix ''libfoo.so.1'' ''libfoo.so'' \<and> ''libfoo.so.1'' \<notin> libs locals0 \<and>
   elfMachine multiarchWorld ''/usr/lib32/libfoo.so.1'' = Some 3 \<and> (3 :: Machine) \<noteq> 62 \<and>
   elfMachine multiarchWorld ''/usr/lib64/libfoo.so.1'' = Some 62 \<and>
   elfMachine multiarchWorld ''/usr/libx32/libfoo.so.1'' \<noteq> Some 62 \<and>
   ''/usr/lib64/libfoo.so.1''
     \<in> set (libraries (fst (rangeLdCache multiarchWorld 62 ''libfoo.so''
               [(''/usr/lib32/libfoo.so.1'', ''libfoo.so.1''),
                (''/usr/libx32/libfoo.so.1'', ''libfoo.so.1''),
                (''/usr/lib64/libfoo.so.1'', ''libfoo.so.1''),
                (''/usr/lib64/libfoo.so.2'', ''libfoo.so.2'')] (locals0, state0))))"
proof -
  have 1: "HasPrefix ''libfoo.so.1'' ''libfoo.so''" by (simp add: HasPrefix_def)
  have 2: "''libfoo.so.1'' \<notin> libs locals0" by (simp add: locals0_def)
  have 3: "elfMachine multiarchWorld ''/usr/lib32/libfoo.so.1'' = Some 3"
    by (simp add: multiarchWorld_def hostWorld_def)
  have 4: "(3 :: Machine) \<noteq> 62" by simp
  have 5: "elfMachine multiarchWorld ''/usr/lib64/libfoo.so.1'' = Some 62"
    by (simp add: multiarchWorld_def hostWorld_def)
  have 6: "\<forall>(p, n) \<in> set [(''/usr/libx32/libfoo.so.1'', ''libfoo.so.1'')].
      n = ''libfoo.so.1'' \<longrightarrow> elfMachine multiarchWorld p \<noteq> Some 62"
    by (simp add: multiarchWorld_def hostWorld_def)
  have 7: "[(''/usr/libx32/libfoo.so.1'', ''libfoo.so.1''),
            (''/usr/lib64/libfoo.so.1'', ''libfoo.so.1''),
            (''/usr/lib64/libfoo.so.2'', ''libfoo.so.2'')]
         = [(''/usr/libx32/libfoo.so.1'', ''libfoo.so.1'')]
           @ (''/usr/lib64/libfoo.so.1'', ''libfoo.so.1'')
           # [(''/usr/lib64/libfoo.so.2'', ''libfoo.so.2'')]"
    by simp
  from C2_mismatch_leaves_name_unseen [OF 1 2 3 4,
      of "[(''/usr/libx32/libfoo.so.1'', ''libfoo.so.1''),
           (''/usr/lib64/libfoo.so.1'', ''libfoo.so.1''),
           (''/usr/lib64/libfoo.so.2'', ''libfoo.so.2'')]" state0,
      THEN conjunct2, THEN spec, THEN spec, THEN spec, THEN mp, OF conjI [OF 7 conjI [OF 5 6]]]
  have "''/usr/lib64/libfoo.so.1''
     \<in> set (libraries (fst (rangeLdCache multiarchWorld 62 ''libfoo.so''
               [(''/usr/lib32/libfoo.so.1'', ''libfoo.so.1''),
                (''/usr/libx32/libfoo.so.1'', ''libfoo.so.1''),
                (''/usr/lib64/libfoo.so.1'', ''libfoo.so.1''),
                (''/usr/lib64/libfoo.so.2'', ''libfoo.so.2'')] (locals0, state0))))"
    .
  moreover have "elfMachine multiarchWorld ''/usr/libx32/libfoo.so.1'' \<noteq> Some 62"
    using 6 by simp
  ultimately show ?thesis using 1 2 3 4 5 by blast
qed

subsection \<open>Libraries and binaries are told apart by a substring\<close>

text \<open>
  Claim C9. \<open>Contains name substr\<close> holds exactly when \<open>substr\<close> occurs somewhere
  in \<open>name\<close>. A candidate containing \<open>.so\<close> anywhere goes to the matching against
  the cache and is never passed to \<open>exec.LookPath\<close>; every resolved binary is the
  result of the search for a candidate that does not contain \<open>.so\<close>; a candidate
  without \<open>.so\<close> is searched on the path and adds no library.
\<close>

theorem C9_substring_discriminator:
  "(Contains name substr \<longleftrightarrow> (\<exists>pre post. name = pre @ substr @ post)) \<and>
   (\<forall>c. Contains c ''.so'' \<longrightarrow>
      (\<exists>tr. trace (snd (rangeGpuFiles w machine ldCache gpuFiles i (l, s))) = trace s @ tr \<and>
            EvLookPath c \<notin> set tr)) \<and>
   (\<forall>binary \<in> set (binaries (fst (rangeGpuFiles w machine ldCache gpuFiles i (locals0, s)))).
      \<exists>gpuFile \<in> set gpuFiles. \<not> Contains gpuFile ''.so'' \<and>
         lookPath w (getenv (environ s) ''PATH'') gpuFile = Some binary) \<and>
   (Contains gpuFile ''.so'' \<longrightarrow>
      rangeGpuFiles w machine ldCache (gpuFile # rest) i (l, s)
        = rangeGpuFiles w machine ldCache rest (Suc i)
            (rangeLdCache w machine gpuFile (mapRange w i ldCache) (l, s))) \<and>
   (\<not> Contains gpuFile ''.so'' \<longrightarrow>
      libraries (fst (rangeGpuFiles w machine ldCache [gpuFile] i (l, s))) = libraries l \<and>
      libs (fst (rangeGpuFiles w machine ldCache [gpuFile] i (l, s))) = libs l \<and>
      trace (snd (rangeGpuFiles w machine ldCache [gpuFile] i (l, s)))
        = trace s @ [EvLookPath gpuFile])"
proof -
  have 1: "Contains name substr \<longleftrightarrow> (\<exists>pre post. name = pre @ substr @ post)"
    by (rule Contains_iff)
  have 2: "\<forall>c. Contains c ''.so'' \<longrightarrow>
      (\<exists>tr. trace (snd (rangeGpuFiles w machine ldCache gpuFiles i (l, s))) = trace s @ tr \<and>
            EvLookPath c \<notin> set tr)"
    using rangeGpuFiles_no_LookPath by blast
  have 3: "\<forall>binary \<in> set (binaries (fst (rangeGpuFiles w machine ldCache gpuFiles i (locals0, s)))).
      \<exists>gpuFile \<in> set gpuFiles. \<not> Contains gpuFile ''.so'' \<and>
         lookPath w (getenv (environ s) ''PATH'') gpuFile = Some binary"
    by (rule grows_locals0(2) [OF conjunct1 [OF rangeGpuFiles_grows]])
  have 4: "Contains gpuFile ''.so'' \<longrightarrow>
      rangeGpuFiles w machine ldCache (gpuFile # rest) i (l, s)
        = rangeGpuFiles w machine ldCache rest (Suc i)
            (rangeLdCache w machine gpuFile (mapRange w i ldCache) (l, s))"
    by simp
  have 5: "\<not> Contains gpuFile ''.so'' \<longrightarrow>
      libraries (fst (rangeGpuFiles w machine ldCache [gpuFile] i (l, s))) = libraries l \<and>
      libs (fst (rangeGpuFiles w machine ldCache [gpuFile] i (l, s))) = libs l \<and>
      trace (snd (rangeGpuFiles w machine ldCache [gpuFile] i (l, s)))
        = trace s @ [EvLookPath gpuFile]"
    by (simp add: exec_LookPath_def split: option.splits)
  from 1 2 3 4 5 show ?thesis by blast
qed

theorem C9_substring_discriminator_witness:
  "Contains ''/opt/my.software/bin/nvidia-smi'' ''.so'' \<and>
   \<not> Contains ''nvidia-smi'' ''.so'' \<and>
   lookPath softwareWorld ''/usr/bin'' ''/opt/my.software/bin/nvidia-smi''
     = Some ''/opt/my.software/bin/nvidia-smi'' \<and>
   rangeGpuFiles softwareWorld 62 [(''/usr/lib/libfoo.so.1'', ''libfoo.so.1'')]
        [''/opt/my.software/bin/nvidia-smi'', ''nvidia-smi''] 0 (locals0, state0)
     = (\<lparr>bins = {''nvidia-smi''}, libs = {}, libraries = [], binaries = [''nvidia-smi'']\<rparr>,
        state0\<lparr>trace := [EvLookPath ''nvidia-smi'']\<rparr>) \<and>
   (\<exists>tr. trace (snd (rangeGpuFiles softwareWorld 62 [(''/usr/lib/libfoo.so.1'', ''libfoo.so.1'')]
        [''/opt/my.software/bin/nvidia-smi'', ''nvidia-smi''] 0 (locals0, state0)))
           = trace state0 @ tr \<and> EvLookPath ''/opt/my.software/bin/nvidia-smi'' \<notin> set tr) \<and>
   trace (snd (rangeGpuFiles softwareWorld 62 [(''/usr/lib/libfoo.so.1'', ''libfoo.so.1'')]
        [''nvidia-smi''] 0 (locals0, state0))) = trace state0 @ [EvLookPath ''nvidia-smi'']"
proof -
  have a: "Contains ''/opt/my.software/bin/nvidia-smi'' ''.so''" by simp
  have b: "\<not> Contains ''nvidia-smi'' ''.so''" by simp
  have e: "rangeGpuFiles softwareWorld 62 [(''/usr/lib/libfoo.so.1'', ''libfoo.so.1'')]
        [''/opt/my.software/bin/nvidia-smi'', ''nvidia-smi''] 0 (locals0, state0)
     = (\<lparr>bins = {''nvidia-smi''}, libs = {}, libraries = [], binaries = [''nvidia-smi'']\<rparr>,
        state0\<lparr>trace := [EvLookPath ''nvidia-smi'']\<rparr>)"
    by (simp add: eval_defs softwareWorld_def hostWorld_def)
  note t1 = C9_substring_discriminator [of "[]" "[]" softwareWorld 62
      "[(''/usr/lib/libfoo.so.1'', ''libfoo.so.1'')]"
      "[''/opt/my.software/bin/nvidia-smi'', ''nvidia-smi'']" 0 locals0 state0
      "''nvidia-smi''" "[]"]
  from t1 have c: "\<exists>tr. trace (snd (rangeGpuFiles softwareWorld 62
        [(''/usr/lib/libfoo.so.1'', ''libfoo.so.1'')]
        [''/opt/my.software/bin/nvidia-smi'', ''nvidia-smi''] 0 (locals0, state0)))
           = trace state0 @ tr \<and> EvLookPath ''/opt/my.software/bin/nvidia-smi'' \<notin> set tr"
    using a by blast
  note t2 = C9_substring_discriminator [of "[]" "[]" softwareWorld 62
      "[(''/usr/lib/libfoo.so.1'', ''libfoo.so.1'')]" "[]" 0 locals0 state0
      "''nvidia-smi''" "[]"]
  from t2 b have d: "trace (snd (rangeGpuFiles softwareWorld 62
        [(''/usr/lib/libfoo.so.1'', ''libfoo.so.1'')]
        [''nvidia-smi''] 0 (locals0, state0))) = trace state0 @ [EvLookPath ''nvidia-smi'']"
    by blast
  have f: "lookPath softwareWorld ''/usr/bin'' ''/opt/my.software/bin/nvidia-smi''
     = Some ''/opt/my.software/bin/nvidia-smi''"
    by (simp add: softwareWorld_def hostWorld_def)
  from a b c d e f show ?thesis by blast
qed

subsection \<open>Providers and failures\<close>

text \<open>
  Claim C4. The resolution (\<open>Paths\<close> and \<open>GetGpuPath\<close> after the override of
  \<open>PATH\<close>) begins with the search for the helper tool. When the helper provider
  succeeds, its output is the candidate list and no file is opened by \<open>os.Open\<close> in
  the whole call, so the manifest provider is not run. When the helper provider fails,
  whatever the error, the manifest is opened; if that succeeds the candidates are its
  lines, trimmed, without the empty ones and the ones starting with \<open>#\<close>; if it
  fails the call returns an error and empty lists. Trimming a line removes white space
  at its two ends and nothing else, and leaves no white space rune at either end. The
  lines are the pieces of the text between newlines, without a trailing carriage
  return, up to the first line that does not fit the buffer of the scanner.
\<close>

theorem C4_provider_fallback:
  "Paths w gpuDir [] gpu s = Paths_body w gpuDir gpu s \<and>
   (\<exists>tr. trace (snd (Paths_body w gpuDir gpu s))
           = trace s @ EvLookPath ''nvidia-container-cli'' # tr) \<and>
   (\<forall>gpuFiles. fst (gpuContainerCli w s) = Inr gpuFiles \<longrightarrow>
      Paths_body w gpuDir gpu s = Paths_ldconfig w gpuFiles (snd (gpuContainerCli w s)) \<and>
      (\<exists>tr. trace (snd (Paths_body w gpuDir gpu s)) = trace s @ tr \<and>
            (\<forall>name. EvOpen name \<notin> set tr))) \<and>
   (\<forall>err text. fst (gpuContainerCli w s) = Inl err \<and>
               readFile w (filepathJoin w gpuDir (File gpu)) = Some text \<longrightarrow>
      Paths_body w gpuDir gpu s
        = Paths_ldconfig w
            (filter (\<lambda>line. line \<noteq> [] \<and> hd line \<noteq> CHR ''#'') (map TrimSpace (ScanLines text)))
            ((snd (gpuContainerCli w s))
               \<lparr>trace := trace (snd (gpuContainerCli w s))
                           @ [EvOpen (filepathJoin w gpuDir (File gpu))]\<rparr>)) \<and>
   (\<forall>err. fst (gpuContainerCli w s) = Inl err \<and>
          readFile w (filepathJoin w gpuDir (File gpu)) = None \<longrightarrow>
      (\<exists>e. fst (Paths_body w gpuDir gpu s) = ([], [], Some e))) \<and>
   GetGpuPath w gpuDir [] gpu s = GetGpuPath_body w gpuDir gpu s \<and>
   (\<exists>tr. trace (snd (GetGpuPath_body w gpuDir gpu s))
           = trace s @ EvLookPath ''nvidia-container-cli'' # tr) \<and>
   (\<forall>strArray. fst (gpuutils_gpuContainerCli w s) = Inr strArray \<longrightarrow>
      GetGpuPath_body w gpuDir gpu s
        = GetGpuPath_ldconfig w strArray (snd (gpuutils_gpuContainerCli w s)) \<and>
      (\<exists>tr. trace (snd (GetGpuPath_body w gpuDir gpu s)) = trace s @ tr \<and>
            (\<forall>name. EvOpen name \<notin> set tr))) \<and>
   (\<forall>err text. fst (gpuutils_gpuContainerCli w s) = Inl err \<and>
               readFile w (gpuDir @ ''/'' @ File gpu) = Some text \<longrightarrow>
      GetGpuPath_body w gpuDir gpu s
        = GetGpuPath_ldconfig w
            (filter (\<lambda>line. line \<noteq> [] \<and> hd line \<noteq> CHR ''#'') (map TrimSpace (ScanLines text)))
            ((snd (gpuutils_gpuContainerCli w s))
               \<lparr>trace := trace (snd (gpuutils_gpuContainerCli w s))
                           @ [EvOpen (gpuDir @ ''/'' @ File gpu)]\<rparr>)) \<and>
   (\<forall>err. fst (gpuutils_gpuContainerCli w s) = Inl err \<and>
          readFile w (gpuDir @ ''/'' @ File gpu) = None \<longrightarrow>
      (\<exists>e. fst (GetGpuPath_body w gpuDir gpu s) = ([], [], Some e))) \<and>
   (\<exists>l r. line = l @ TrimSpace line @ r \<and> white l \<and> white r) \<and>
   (\<forall>e \<in> set spaceRunes. \<not> prefix e (TrimSpace line) \<and> \<not> suffix e (TrimSpace line)) \<and>
   ((\<forall>l \<in> set ls. CHR 0x0A \<notin> set l \<and> length l < MaxScanTokenSize) \<longrightarrow>
      ScanLines (concat (map (\<lambda>l. l @ [CHR 0x0A]) ls)) = map dropCR ls) \<and>
   ((\<forall>l \<in> set ls. CHR 0x0A \<notin> set l \<and> length l < MaxScanTokenSize) \<and>
    CHR 0x0A \<notin> set long \<and> MaxScanTokenSize \<le> length long \<longrightarrow>
      ScanLines (concat (map (\<lambda>l. l @ [CHR 0x0A]) ls) @ long @ CHR 0x0A # remainder)
        = map dropCR ls)"
proof -
  have 0: "Paths w gpuDir [] gpu s = Paths_body w gpuDir gpu s"
    "GetGpuPath w gpuDir [] gpu s = GetGpuPath_body w gpuDir gpu s"
    by (simp_all add: Paths_def GetGpuPath_def)
  note 1 = Paths_body_helper_first [of w gpuDir gpu s]
    GetGpuPath_body_helper_first [of w gpuDir gpu s]
  note 2 = Paths_body_helper_ok [of w s _ gpuDir gpu]
    GetGpuPath_body_helper_ok [of w s _ gpuDir gpu]
  note 3 = Paths_body_fallback [of w s _ gpuDir gpu]
    GetGpuPath_body_fallback [of w s _ gpuDir gpu]
  show ?thesis
    apply (intro conjI allI impI)
    subgoal by (rule 0)
    subgoal by (rule 1)
    subgoal using 2(1) by blast
    subgoal using 2(1) by blast
    subgoal using 3(1) by blast
    subgoal using 3(1) by blast
    subgoal by (rule 0)
    subgoal by (rule 1)
    subgoal using 2(2) by blast
    subgoal using 2(2) by blast
    subgoal using 3(2) by blast
    subgoal using 3(2) by blast
    subgoal using TrimSpace_spec by blast
    subgoal using TrimSpace_spec by blast
    subgoal using ScanLines_spec(1) by blast
    subgoal using ScanLines_spec(2) by blast
    done
qed

theorem C4_provider_fallback_witness:
  "fst (gpuContainerCli cliWorld state0)
     = Inr [''libfoo.so.1'', ''libfoo.so'', ''/usr/bin/nvidia-smi''] \<and>
   (\<exists>tr. trace (snd (Paths_body cliWorld ''/etc'' nvCfg state0)) = trace state0 @ tr \<and>
         (\<forall>name. EvOpen name \<notin> set tr)) \<and>
   fst (Paths cliWorld ''/etc'' [] nvCfg state0)
     = ([''/usr/lib/libfoo.so.1''], [''/usr/bin/nvidia-smi''], None) \<and>
   fst (gpuContainerCli hostWorld state0)
     = Inl (Errorf ''could not find nvidia-container-cli'' (ErrNotFound ''nvidia-container-cli'')) \<and>
   readFile hostWorld (filepathJoin hostWorld ''/etc'' (File nvCfg))
     = Some (''# comment'' @ [CHR 0x0A, CHR 0x0A] @ ''nvidia-smi'' @ [CHR 0x0A] @ ''libfoo.so''
             @ [CHR 0x0A]) \<and>
   Paths_body hostWorld ''/etc'' nvCfg state0
     = Paths_ldconfig hostWorld [''nvidia-smi'', ''libfoo.so'']
         (state0\<lparr>trace := [EvLookPath ''nvidia-container-cli'', EvOpen ''/etc/nvliblist.conf'']\<rparr>) \<and>
   fst (gpuContainerCli bareWorld state0)
     = Inl (Errorf ''could not find nvidia-container-cli'' (ErrNotFound ''nvidia-container-cli'')) \<and>
   readFile bareWorld (filepathJoin bareWorld ''/etc'' (File nvCfg)) = None \<and>
   (\<exists>e. fst (Paths_body bareWorld ''/etc'' nvCfg state0) = ([], [], Some e)) \<and>
   fst (gpuutils_gpuContainerCli cliWorld state0)
     = Inr [''libfoo.so.1'', ''libfoo.so'', ''/usr/bin/nvidia-smi''] \<and>
   (\<exists>tr. trace (snd (GetGpuPath_body cliWorld ''/etc'' nvCfg state0)) = trace state0 @ tr \<and>
         (\<forall>name. EvOpen name \<notin> set tr)) \<and>
   (\<exists>e. fst (GetGpuPath_body bareWorld ''/etc'' nvCfg state0) = ([], [], Some e)) \<and>
   fst (gpuContainerCli blanksWorld state0)
     = Inl (Errorf ''could not find nvidia-container-cli'' (ErrNotFound ''nvidia-container-cli'')) \<and>
   readFile blanksWorld (filepathJoin blanksWorld ''/etc'' (File nvCfg))
     = Some (''# comment'' @ [CHR 0x0A, CHR 0x0A] @ ''  nvidia-smi '' @ [CHR 0x0D, CHR 0x0A]
             @ [CHR 0x09] @ ''libfoo.so'' @ [CHR 0xC2, CHR 0xA0, CHR 0x0A] @ '' #x'' @ [CHR 0x0A]) \<and>
   Paths_body blanksWorld ''/etc'' nvCfg state0
     = Paths_ldconfig blanksWorld [''nvidia-smi'', ''libfoo.so'']
         (state0\<lparr>trace := [EvLookPath ''nvidia-container-cli'', EvOpen ''/etc/nvliblist.conf'']\<rparr>) \<and>
   GetGpuPath_body blanksWorld ''/etc'' nvCfg state0
     = GetGpuPath_ldconfig blanksWorld [''nvidia-smi'', ''libfoo.so'']
         (state0\<lparr>trace := [EvLookPath ''nvidia-container-cli'', EvOpen ''/etc/nvliblist.conf'']\<rparr>) \<and>
   TrimSpace ([CHR 0x09] @ ''libfoo.so'' @ [CHR 0xC2, CHR 0xA0]) = ''libfoo.so'' \<and>
   [CHR 0xC2, CHR 0xA0] \<in> set spaceRunes \<and>
   \<not> suffix [CHR 0xC2, CHR 0xA0] (TrimSpace ([CHR 0x09] @ ''libfoo.so'' @ [CHR 0xC2, CHR 0xA0])) \<and>
   length (''  nvidia-smi '' @ [CHR 0x0D]) < MaxScanTokenSize \<and>
   ScanLines (concat (map (\<lambda>l. l @ [CHR 0x0A]) [''# comment'', [], ''  nvidia-smi '' @ [CHR 0x0D]]))
     = [''# comment'', [], ''  nvidia-smi ''] \<and>
   CHR 0x0A \<notin> set (replicate 65536 (CHR ''a'')) \<and>
   MaxScanTokenSize \<le> length (replicate 65536 (CHR ''a'')) \<and>
   ScanLines (concat (map (\<lambda>l. l @ [CHR 0x0A]) [''# comment'', [], ''  nvidia-smi '' @ [CHR 0x0D]])
              @ replicate 65536 (CHR ''a'') @ CHR 0x0A # ''libfoo.so'')
     = [''# comment'', [], ''  nvidia-smi '']"
proof -
  have c1: "fst (gpuContainerCli cliWorld state0)
     = Inr [''libfoo.so.1'', ''libfoo.so'', ''/usr/bin/nvidia-smi'']"
    and c2: "fst (gpuutils_gpuContainerCli cliWorld state0)
     = Inr [''libfoo.so.1'', ''libfoo.so'', ''/usr/bin/nvidia-smi'']"
    by (simp_all add: eval_defs cliWorld_def hostWorld_def)
  have c3: "fst (Paths cliWorld ''/etc'' [] nvCfg state0)
     = ([''/usr/lib/libfoo.so.1''], [''/usr/bin/nvidia-smi''], None)"
    by (simp add: eval_defs cliWorld_def hostWorld_def)
  have h1: "fst (gpuContainerCli hostWorld state0)
     = Inl (Errorf ''could not find nvidia-container-cli'' (ErrNotFound ''nvidia-container-cli''))"
    and h2: "readFile hostWorld (filepathJoin hostWorld ''/etc'' (File nvCfg))
     = Some (''# comment'' @ [CHR 0x0A, CHR 0x0A] @ ''nvidia-smi'' @ [CHR 0x0A] @ ''libfoo.so''
             @ [CHR 0x0A])"
    and h3: "snd (gpuContainerCli hostWorld state0)
     = state0\<lparr>trace := [EvLookPath ''nvidia-container-cli'']\<rparr>"
    by (simp_all add: eval_defs hostWorld_def)
  have h4: "filter (\<lambda>line. line \<noteq> [] \<and> hd line \<noteq> CHR ''#'')
      (map TrimSpace (ScanLines (''# comment'' @ [CHR 0x0A, CHR 0x0A] @ ''nvidia-smi''
          @ [CHR 0x0A] @ ''libfoo.so'' @ [CHR 0x0A])))
     = [''nvidia-smi'', ''libfoo.so'']"
    by (simp add: eval_defs)
  have b1: "fst (gpuContainerCli bareWorld state0)
     = Inl (Errorf ''could not find nvidia-container-cli'' (ErrNotFound ''nvidia-container-cli''))"
    and b2: "readFile bareWorld (filepathJoin bareWorld ''/etc'' (File nvCfg)) = None"
    and b3: "fst (gpuutils_gpuContainerCli bareWorld state0)
     = Inl (Errorf ''no nvidia-container-cli present'' (ErrNotFound ''nvidia-container-cli''))"
    and b4: "readFile bareWorld (''/etc'' @ ''/'' @ File nvCfg) = None"
    by (simp_all add: eval_defs bareWorld_def hostWorld_def)
  note tc = C4_provider_fallback [of cliWorld "''/etc''" nvCfg state0]
  note th = C4_provider_fallback [of hostWorld "''/etc''" nvCfg state0]
  note tb = C4_provider_fallback [of bareWorld "''/etc''" nvCfg state0]
  from tc c1 have r1: "\<exists>tr. trace (snd (Paths_body cliWorld ''/etc'' nvCfg state0)) = trace state0 @ tr \<and>
         (\<forall>name. EvOpen name \<notin> set tr)"
    by blast
  from tc c2 have r2: "\<exists>tr. trace (snd (GetGpuPath_body cliWorld ''/etc'' nvCfg state0)) = trace state0 @ tr \<and>
         (\<forall>name. EvOpen name \<notin> set tr)"
    by blast
  from th h1 h2 have "Paths_body hostWorld ''/etc'' nvCfg state0
     = Paths_ldconfig hostWorld
         (filter (\<lambda>line. line \<noteq> [] \<and> hd line \<noteq> CHR ''#'')
            (map TrimSpace (ScanLines (''# comment'' @ [CHR 0x0A, CHR 0x0A] @ ''nvidia-smi''
               @ [CHR 0x0A] @ ''libfoo.so'' @ [CHR 0x0A]))))
         ((snd (gpuContainerCli hostWorld state0))
               \<lparr>trace := trace (snd (gpuContainerCli hostWorld state0))
                           @ [EvOpen (filepathJoin hostWorld ''/etc'' (File nvCfg))]\<rparr>)"
    by blast
  then have r3: "Paths_body hostWorld ''/etc'' nvCfg state0
     = Paths_ldconfig hostWorld [''nvidia-smi'', ''libfoo.so'']
         (state0\<lparr>trace := [EvLookPath ''nvidia-container-cli'', EvOpen ''/etc/nvliblist.conf'']\<rparr>)"
    unfolding h3 h4 by (simp add: hostWorld_def nvCfg_def)
  from tb b1 b2 have r4: "\<exists>e. fst (Paths_body bareWorld ''/etc'' nvCfg state0) = ([], [], Some e)"
    by blast
  from tb b3 b4 have r5: "\<exists>e. fst (GetGpuPath_body bareWorld ''/etc'' nvCfg state0) = ([], [], Some e)"
    by blast
  have k1: "fst (gpuContainerCli blanksWorld state0)
     = Inl (Errorf ''could not find nvidia-container-cli'' (ErrNotFound ''nvidia-container-cli''))"
    and k2: "readFile blanksWorld (filepathJoin blanksWorld ''/etc'' (File nvCfg))
     = Some (''# comment'' @ [CHR 0x0A, CHR 0x0A] @ ''  nvidia-smi '' @ [CHR 0x0D, CHR 0x0A]
             @ [CHR 0x09] @ ''libfoo.so'' @ [CHR 0xC2, CHR 0xA0, CHR 0x0A] @ '' #x'' @ [CHR 0x0A])"
    and k3: "snd (gpuContainerCli blanksWorld state0)
     = state0\<lparr>trace := [EvLookPath ''nvidia-container-cli'']\<rparr>"
    and k5: "fst (gpuutils_gpuContainerCli blanksWorld state0)
     = Inl (Errorf ''no nvidia-container-cli present'' (ErrNotFound ''nvidia-container-cli''))"
    and k6: "readFile blanksWorld (''/etc'' @ ''/'' @ File nvCfg)
     = Some (''# comment'' @ [CHR 0x0A, CHR 0x0A] @ ''  nvidia-smi '' @ [CHR 0x0D, CHR 0x0A]
             @ [CHR 0x09] @ ''libfoo.so'' @ [CHR 0xC2, CHR 0xA0, CHR 0x0A] @ '' #x'' @ [CHR 0x0A])"
    and k7: "snd (gpuutils_gpuContainerCli blanksWorld state0)
     = state0\<lparr>trace := [EvLookPath ''nvidia-container-cli'']\<rparr>"
    by (simp_all add: eval_defs blanksWorld_def hostWorld_def)
  have k4: "filter (\<lambda>line. line \<noteq> [] \<and> hd line \<noteq> CHR ''#'')
      (map TrimSpace (ScanLines (''# comment'' @ [CHR 0x0A, CHR 0x0A] @ ''  nvidia-smi ''
          @ [CHR 0x0D, CHR 0x0A] @ [CHR 0x09] @ ''libfoo.so'' @ [CHR 0xC2, CHR 0xA0, CHR 0x0A]
          @ '' #x'' @ [CHR 0x0A])))
     = [''nvidia-smi'', ''libfoo.so'']"
    by (simp add: eval_defs)
  have t1: "TrimSpace ([CHR 0x09] @ ''libfoo.so'' @ [CHR 0xC2, CHR 0xA0]) = ''libfoo.so''"
    by (simp add: eval_defs)
  have t2: "[CHR 0xC2, CHR 0xA0] \<in> set spaceRunes" by (simp add: spaceRunes_def)
  have s1: "\<forall>l \<in> set [''# comment'', [], ''  nvidia-smi '' @ [CHR 0x0D]].
      CHR 0x0A \<notin> set l \<and> length l < MaxScanTokenSize"
    by (simp add: MaxScanTokenSize_def)
  have s2: "CHR 0x0A \<notin> set (replicate 65536 (CHR ''a''))"
    and s3: "MaxScanTokenSize \<le> length (replicate 65536 (CHR ''a''))"
    by (simp_all add: MaxScanTokenSize_def)
  have s4: "map dropCR [''# comment'', [], ''  nvidia-smi '' @ [CHR 0x0D]]
      = [''# comment'', [], ''  nvidia-smi '']"
    by (simp add: dropCR_def)
  note tk = C4_provider_fallback [of blanksWorld "''/etc''" nvCfg state0
      "[CHR 0x09] @ ''libfoo.so'' @ [CHR 0xC2, CHR 0xA0]"
      "[''# comment'', [], ''  nvidia-smi '' @ [CHR 0x0D]]"
      "replicate 65536 (CHR ''a'')" "''libfoo.so''"]
  from tk k1 k2 have "Paths_body blanksWorld ''/etc'' nvCfg state0
     = Paths_ldconfig blanksWorld
         (filter (\<lambda>line. line \<noteq> [] \<and> hd line \<noteq> CHR ''#'')
            (map TrimSpace (ScanLines (''# comment'' @ [CHR 0x0A, CHR 0x0A] @ ''  nvidia-smi ''
          @ [CHR 0x0D, CHR 0x0A] @ [CHR 0x09] @ ''libfoo.so'' @ [CHR 0xC2, CHR 0xA0, CHR 0x0A]
          @ '' #x'' @ [CHR 0x0A]))))
         ((snd (gpuContainerCli blanksWorld state0))
               \<lparr>trace := trace (snd (gpuContainerCli blanksWorld state0))
                           @ [EvOpen (filepathJoin blanksWorld ''/etc'' (File nvCfg))]\<rparr>)"
    by blast
  then have q1: "Paths_body blanksWorld ''/etc'' nvCfg state0
     = Paths_ldconfig blanksWorld [''nvidia-smi'', ''libfoo.so'']
         (state0\<lparr>trace := [EvLookPath ''nvidia-container-cli'', EvOpen ''/etc/nvliblist.conf'']\<rparr>)"
    unfolding k3 k4 by (simp add: blanksWorld_def hostWorld_def nvCfg_def)
  from tk k5 k6 have "GetGpuPath_body blanksWorld ''/etc'' nvCfg state0
     = GetGpuPath_ldconfig blanksWorld
         (filter (\<lambda>line. line \<noteq> [] \<and> hd line \<noteq> CHR ''#'')
            (map TrimSpace (ScanLines (''# comment'' @ [CHR 0x0A, CHR 0x0A] @ ''  nvidia-smi ''
          @ [CHR 0x0D, CHR 0x0A] @ [CHR 0x09] @ ''libfoo.so'' @ [CHR 0xC2, CHR 0xA0, CHR 0x0A]
          @ '' #x'' @ [CHR 0x0A]))))
         ((snd (gpuutils_gpuContainerCli blanksWorld state0))
               \<lparr>trace := trace (snd (gpuutils_gpuContainerCli blanksWorld state0))
                           @ [EvOpen (''/etc'' @ ''/'' @ File nvCfg)]\<rparr>)"
    by blast
  then have q2: "GetGpuPath_body blanksWorld ''/etc'' nvCfg state0
     = GetGpuPath_ldconfig blanksWorld [''nvidia-smi'', ''libfoo.so'']
         (state0\<lparr>trace := [EvLookPath ''nvidia-container-cli'', EvOpen ''/etc/nvliblist.conf'']\<rparr>)"
    unfolding k7 k4 by (simp add: nvCfg_def)
  from tk t2 have q3: "\<not> suffix [CHR 0xC2, CHR 0xA0]
      (TrimSpace ([CHR 0x09] @ ''libfoo.so'' @ [CHR 0xC2, CHR 0xA0]))"
    by blast
  from tk s1 have q4: "ScanLines (concat (map (\<lambda>l. l @ [CHR 0x0A])
        [''# comment'', [], ''  nvidia-smi '' @ [CHR 0x0D]]))
     = [''# comment'', [], ''  nvidia-smi '']"
    unfolding s4 [symmetric] by blast
  from tk s1 s2 s3 have q5: "ScanLines (concat (map (\<lambda>l. l @ [CHR 0x0A])
        [''# comment'', [], ''  nvidia-smi '' @ [CHR 0x0D]])
              @ replicate 65536 (CHR ''a'') @ CHR 0x0A # ''libfoo.so'')
     = [''# comment'', [], ''  nvidia-smi '']"
    unfolding s4 [symmetric] by blast
  from s1 have s5: "length (''  nvidia-smi '' @ [CHR 0x0D]) < MaxScanTokenSize"
    by simp
  from c1 c2 c3 h1 h2 b1 b2 r1 r2 r3 r4 r5 k1 k2 q1 q2 t1 t2 q3 s5 q4 s2 s3 q5
  show ?thesis by blast
qed



text \<open>
  Claim C5. When \<open>ldconfig\<close> cannot be run, or \<open>/proc/self/exe\<close> cannot be opened,
  \<open>Paths\<close> returns an error with both lists empty. When \<open>ldconfig\<close>, the pattern and
  \<open>/proc/self/exe\<close> are fine, the part of \<open>Paths\<close> from \<open>ldconfig\<close> on returns no
  error, whatever happens to the candidates. The loop only ever appends to the two
  lists; a binary that is not found and a library that cannot be opened leave the
  locals as they are and the loop goes on.
\<close>

theorem C5_failure_semantics:
  "((\<forall>path. runCommand w path ''ldconfig'' [''-p''] = None) \<longrightarrow>
      (\<exists>e. fst (Paths w gpuDir envPath gpu s) = ([], [], Some e))) \<and>
   (elfMachine w ''/proc/self/exe'' = None \<longrightarrow>
      (\<exists>e. fst (Paths w gpuDir envPath gpu s) = ([], [], Some e))) \<and>
   (runCommand w (getenv (environ s) ''PATH'') ''ldconfig'' [''-p''] = None \<longrightarrow>
      fst (Paths_ldconfig w gpuFiles s)
        = ([], [], Some (Errorf ''could not execute ldconfig'' (ErrExec ''ldconfig'')))) \<and>
   (runCommand w (getenv (environ s) ''PATH'') ''ldconfig'' [''-p''] \<noteq> None \<and>
    regexpCompile w \<noteq> None \<and> elfMachine w ''/proc/self/exe'' = None \<longrightarrow>
      fst (Paths_ldconfig w gpuFiles s)
        = ([], [], Some (Errorf ''could not open /proc/self/exe'' (ErrElf ''/proc/self/exe'')))) \<and>
   (runCommand w (getenv (environ s) ''PATH'') ''ldconfig'' [''-p''] \<noteq> None \<and>
    regexpCompile w \<noteq> None \<and> elfMachine w ''/proc/self/exe'' \<noteq> None \<longrightarrow>
      snd (snd (fst (Paths_ldconfig w gpuFiles s))) = None) \<and>
   prefix (libraries l) (libraries (fst (rangeGpuFiles w machine ldCache gpuFiles i (l, s)))) \<and>
   prefix (binaries l) (binaries (fst (rangeGpuFiles w machine ldCache gpuFiles i (l, s)))) \<and>
   (\<not> Contains gpuFile ''.so'' \<and> lookPath w (getenv (environ s) ''PATH'') gpuFile = None \<longrightarrow>
      rangeGpuFiles w machine ldCache (gpuFile # rest) i (l, s)
        = rangeGpuFiles w machine ldCache rest (Suc i)
            (l, s\<lparr>trace := trace s @ [EvLookPath gpuFile]\<rparr>)) \<and>
   (HasPrefix libName gpuFile \<and> libName \<notin> libs l \<and> elfMachine w libPath = None \<longrightarrow>
      rangeLdCache w machine gpuFile ((libPath, libName) # entries) (l, s)
        = rangeLdCache w machine gpuFile entries (l, s\<lparr>trace := trace s @ [EvElfOpen libPath]\<rparr>))"
proof -
  let ?Q = "\<lambda>r :: result. \<exists>e. r = ([], [], Some e)"
  have 1: "?Q (fst (Paths w gpuDir envPath gpu s))"
    if "\<forall>path. runCommand w path ''ldconfig'' [''-p''] = None"
    by (rule Paths_result) (use that in auto)
  have 2: "?Q (fst (Paths w gpuDir envPath gpu s))" if "elfMachine w ''/proc/self/exe'' = None"
    by (rule Paths_result) (use that in auto)
  have 3: "runCommand w (getenv (environ s) ''PATH'') ''ldconfig'' [''-p''] = None \<longrightarrow>
      fst (Paths_ldconfig w gpuFiles s)
        = ([], [], Some (Errorf ''could not execute ldconfig'' (ErrExec ''ldconfig'')))"
    by (simp add: Paths_ldconfig_def exec_Command_def)
  have 4: "runCommand w (getenv (environ s) ''PATH'') ''ldconfig'' [''-p''] \<noteq> None \<and>
    regexpCompile w \<noteq> None \<and> elfMachine w ''/proc/self/exe'' = None \<longrightarrow>
      fst (Paths_ldconfig w gpuFiles s)
        = ([], [], Some (Errorf ''could not open /proc/self/exe'' (ErrElf ''/proc/self/exe'')))"
    by (auto simp: Paths_ldconfig_def exec_Command_def elf_Open_def)
  have 5: "runCommand w (getenv (environ s) ''PATH'') ''ldconfig'' [''-p''] \<noteq> None \<and>
    regexpCompile w \<noteq> None \<and> elfMachine w ''/proc/self/exe'' \<noteq> None \<longrightarrow>
      snd (snd (fst (Paths_ldconfig w gpuFiles s))) = None"
    by (auto simp: Paths_ldconfig_def exec_Command_def elf_Open_def Let_def case_prod_unfold)
  note 6 = grows_prefix [OF conjunct1 [OF rangeGpuFiles_grows [of w ldCache gpuFiles machine s l i]]]
  have 7: "\<not> Contains gpuFile ''.so'' \<and> lookPath w (getenv (environ s) ''PATH'') gpuFile = None \<longrightarrow>
      rangeGpuFiles w machine ldCache (gpuFile # rest) i (l, s)
        = rangeGpuFiles w machine ldCache rest (Suc i)
            (l, s\<lparr>trace := trace s @ [EvLookPath gpuFile]\<rparr>)"
    by (simp add: exec_LookPath_def)
  have 8: "HasPrefix libName gpuFile \<and> libName \<notin> libs l \<and> elfMachine w libPath = None \<longrightarrow>
      rangeLdCache w machine gpuFile ((libPath, libName) # entries) (l, s)
        = rangeLdCache w machine gpuFile entries (l, s\<lparr>trace := trace s @ [EvElfOpen libPath]\<rparr>)"
    by (simp add: elf_Open_def)
  from 1 2 3 4 5 6 7 8 show ?thesis by blast
qed

theorem C5_failure_semantics_witness:
  "(\<forall>path. runCommand noLdconfigWorld path ''ldconfig'' [''-p''] = None) \<and>
   (\<exists>e. fst (Paths noLdconfigWorld ''/etc'' ''/opt/bin'' nvCfg state0) = ([], [], Some e)) \<and>
   fst (Paths_ldconfig noLdconfigWorld [''nvidia-smi'', ''libfoo.so''] state0)
     = ([], [], Some (Errorf ''could not execute ldconfig'' (ErrExec ''ldconfig''))) \<and>
   elfMachine noSelfWorld ''/proc/self/exe'' = None \<and>
   (\<exists>e. fst (Paths noSelfWorld ''/etc'' ''/opt/bin'' nvCfg state0) = ([], [], Some e)) \<and>
   fst (Paths_ldconfig noSelfWorld [''nvidia-smi'', ''libfoo.so''] state0)
     = ([], [], Some (Errorf ''could not open /proc/self/exe'' (ErrElf ''/proc/self/exe''))) \<and>
   lookPath hostWorld (getenv (environ state0) ''PATH'') ''nvidia-smi'' = None \<and>
   elfMachine hostWorld ''/usr/lib/libfoo.so.0'' = None \<and>
   snd (snd (fst (Paths_ldconfig hostWorld [''nvidia-smi'', ''libfoo.so''] state0))) = None \<and>
   rangeGpuFiles hostWorld 62 [] [''nvidia-smi''] 0
       (locals0\<lparr>binaries := [''/opt/bin/nvidia-debugdump'']\<rparr>, state0)
     = (locals0\<lparr>binaries := [''/opt/bin/nvidia-debugdump'']\<rparr>,
        state0\<lparr>trace := trace state0 @ [EvLookPath ''nvidia-smi'']\<rparr>) \<and>
   rangeLdCache hostWorld 62 ''libfoo.so'' [(''/usr/lib/libfoo.so.0'', ''libfoo.so.0'')]
       (locals0\<lparr>libraries := [''/usr/lib/libbar.so.1'']\<rparr>, state0)
     = (locals0\<lparr>libraries := [''/usr/lib/libbar.so.1'']\<rparr>,
        state0\<lparr>trace := trace state0 @ [EvElfOpen ''/usr/lib/libfoo.so.0'']\<rparr>)"
proof -
  have a: "\<forall>path. runCommand noLdconfigWorld path ''ldconfig'' [''-p''] = None"
    and a': "runCommand noLdconfigWorld (getenv (environ state0) ''PATH'') ''ldconfig'' [''-p'']
               = None"
    by (simp_all add: noLdconfigWorld_def hostWorld_def)
  have b: "elfMachine noSelfWorld ''/proc/self/exe'' = None"
    and b': "runCommand noSelfWorld (getenv (environ state0) ''PATH'') ''ldconfig'' [''-p'']
               \<noteq> None \<and> regexpCompile noSelfWorld \<noteq> None \<and>
             elfMachine noSelfWorld ''/proc/self/exe'' = None"
    by (simp_all add: noSelfWorld_def hostWorld_def)
  have c: "runCommand hostWorld (getenv (environ state0) ''PATH'') ''ldconfig'' [''-p'']
               \<noteq> None \<and> regexpCompile hostWorld \<noteq> None \<and>
             elfMachine hostWorld ''/proc/self/exe'' \<noteq> None"
    and d: "\<not> Contains ''nvidia-smi'' ''.so'' \<and>
            lookPath hostWorld (getenv (environ state0) ''PATH'') ''nvidia-smi'' = None"
    and e: "HasPrefix ''libfoo.so.0'' ''libfoo.so'' \<and>
            ''libfoo.so.0'' \<notin> libs (locals0\<lparr>libraries := [''/usr/lib/libbar.so.1'']\<rparr>) \<and>
            elfMachine hostWorld ''/usr/lib/libfoo.so.0'' = None"
    by (simp_all add: hostWorld_def state0_def getenv_def HasPrefix_def locals0_def)
  note t1 = C5_failure_semantics [of noLdconfigWorld "''/etc''" "''/opt/bin''" nvCfg state0
      "[''nvidia-smi'', ''libfoo.so'']"]
  note t2 = C5_failure_semantics [of noSelfWorld "''/etc''" "''/opt/bin''" nvCfg state0
      "[''nvidia-smi'', ''libfoo.so'']"]
  note t3 = C5_failure_semantics [of hostWorld "''/etc''" "''/opt/bin''" nvCfg state0
      "[''nvidia-smi'', ''libfoo.so'']" "locals0\<lparr>binaries := [''/opt/bin/nvidia-debugdump'']\<rparr>"
      62 "[]" 0 "''nvidia-smi''" "[]"]
  note t4 = C5_failure_semantics [of hostWorld "''/etc''" "''/opt/bin''" nvCfg state0
      "[''nvidia-smi'', ''libfoo.so'']" "locals0\<lparr>libraries := [''/usr/lib/libbar.so.1'']\<rparr>"
      62 "[]" 0 "''libfoo.so''" "[]" "''libfoo.so.0''" "''/usr/lib/libfoo.so.0''" "[]"]
  from t1 a a' have r1: "\<exists>e. fst (Paths noLdconfigWorld ''/etc'' ''/opt/bin'' nvCfg state0) = ([], [], Some e)"
    and r2: "fst (Paths_ldconfig noLdconfigWorld [''nvidia-smi'', ''libfoo.so''] state0)
     = ([], [], Some (Errorf ''could not execute ldconfig'' (ErrExec ''ldconfig'')))"
    by blast+
  from t2 b b' have r3: "\<exists>e. fst (Paths noSelfWorld ''/etc'' ''/opt/bin'' nvCfg state0) = ([], [], Some e)"
    and r4: "fst (Paths_ldconfig noSelfWorld [''nvidia-smi'', ''libfoo.so''] state0)
     = ([], [], Some (Errorf ''could not open /proc/self/exe'' (ErrElf ''/proc/self/exe'')))"
    by blast+
  from t3 c d have r5: "snd (snd (fst (Paths_ldconfig hostWorld [''nvidia-smi'', ''libfoo.so''] state0))) = None"
    and "rangeGpuFiles hostWorld 62 [] [''nvidia-smi''] 0
       (locals0\<lparr>binaries := [''/opt/bin/nvidia-debugdump'']\<rparr>, state0)
     = rangeGpuFiles hostWorld 62 [] [] (Suc 0) (locals0\<lparr>binaries := [''/opt/bin/nvidia-debugdump'']\<rparr>,
        state0\<lparr>trace := trace state0 @ [EvLookPath ''nvidia-smi'']\<rparr>)"
    by blast+
  then have r6: "rangeGpuFiles hostWorld 62 [] [''nvidia-smi''] 0
       (locals0\<lparr>binaries := [''/opt/bin/nvidia-debugdump'']\<rparr>, state0)
     = (locals0\<lparr>binaries := [''/opt/bin/nvidia-debugdump'']\<rparr>,
        state0\<lparr>trace := trace state0 @ [EvLookPath ''nvidia-smi'']\<rparr>)"
    by (simp only: rangeGpuFiles.simps)
  from t4 e have "rangeLdCache hostWorld 62 ''libfoo.so'' [(''/usr/lib/libfoo.so.0'', ''libfoo.so.0'')]
       (locals0\<lparr>libraries := [''/usr/lib/libbar.so.1'']\<rparr>, state0)
     = rangeLdCache hostWorld 62 ''libfoo.so'' [] (locals0\<lparr>libraries := [''/usr/lib/libbar.so.1'']\<rparr>,
        state0\<lparr>trace := trace state0 @ [EvElfOpen ''/usr/lib/libfoo.so.0'']\<rparr>)"
    by blast
  then have r7: "rangeLdCache hostWorld 62 ''libfoo.so'' [(''/usr/lib/libfoo.so.0'', ''libfoo.so.0'')]
       (locals0\<lparr>libraries := [''/usr/lib/libbar.so.1'']\<rparr>, state0)
     = (locals0\<lparr>libraries := [''/usr/lib/libbar.so.1'']\<rparr>,
        state0\<lparr>trace := trace state0 @ [EvElfOpen ''/usr/lib/libfoo.so.0'']\<rparr>)"
    by (simp only: rangeLdCache.simps)
  from a b d e r1 r2 r3 r4 r5 r6 r7 show ?thesis by blast
qed

end
